theory Spec2Isabelle
  imports Main
begin

section \<open>Values, strings and the external model\<close>

text \<open>
  The adapters of \<^verbatim>\<open>gemini.ts\<close> hand back whatever \<^verbatim>\<open>JSON.parse\<close> produced, typed
  \<^verbatim>\<open>any\<close>. A value is therefore any JSON value. Numbers are kept as integers; no
  property below looks inside a number except for the test against zero that
  JavaScript truthiness makes.
\<close>

datatype json =
    JNull
  | JBool bool
  | JNum int
  | JStr string
  | JArr "json list"
  | JObj "(string \<times> json) list"

text \<open>JavaScript truthiness of a parsed value: \<^verbatim>\<open>null\<close>, \<^verbatim>\<open>false\<close>, \<^verbatim>\<open>0\<close> and
  \<^verbatim>\<open>""\<close> are falsy, every array and object is truthy.\<close>

fun falsy :: "json \<Rightarrow> bool" where
  "falsy JNull = True"
| "falsy (JBool b) = (\<not> b)"
| "falsy (JNum n) = (n = 0)"
| "falsy (JStr s) = (s = [])"
| "falsy (JArr xs) = False"
| "falsy (JObj kvs) = False"

text \<open>\<^verbatim>\<open>a || b\<close> on values.\<close>

definition or_else :: "json \<Rightarrow> json \<Rightarrow> json" where
  "or_else a b = (if falsy a then b else a)"

text \<open>\<^verbatim>\<open>response.text || dflt\<close>: the text of a response is a string or
  \<^verbatim>\<open>undefined\<close>; both \<^verbatim>\<open>undefined\<close> and the empty string are falsy.\<close>

definition text_or :: "string option \<Rightarrow> string \<Rightarrow> string" where
  "text_or text dflt = (case text of None \<Rightarrow> dflt | Some s \<Rightarrow> if s = [] then dflt else s)"

text \<open>
  A string is a list of 8-bit characters: a JavaScript string whose code units all lie
  below 256, each character being the code unit that \<^verbatim>\<open>.length\<close> counts and its code
  the code point of ISO 8859-1. On these strings \<^verbatim>\<open>String.prototype.toLowerCase\<close>
  maps every code unit on its own: the capital letters \<^verbatim>\<open>A\<close>..\<^verbatim>\<open>Z\<close> (codes
  65..90) and the accented capitals at codes 192..222, the multiplication sign 215
  apart, move up by 32 to their small letters; every other character stays, among them
  the small letters 181, 223 and 255, which have no capital among these characters.
\<close>

definition is_upper :: "char \<Rightarrow> bool" where
  "is_upper ch =
     ((65 \<le> (of_char ch :: nat) \<and> (of_char ch :: nat) \<le> 90)
      \<or> (192 \<le> (of_char ch :: nat) \<and> (of_char ch :: nat) \<le> 222
          \<and> (of_char ch :: nat) \<noteq> 215))"

definition lower_char :: "char \<Rightarrow> char" where
  "lower_char ch = (if is_upper ch then char_of ((of_char ch :: nat) + 32) else ch)"

definition toLowerCase :: "string \<Rightarrow> string" where
  "toLowerCase s = map lower_char s"

text \<open>Two characters are the same letter up to case when they are equal or one is a
  capital letter and the other its small letter; two strings differ only in letter case
  when their characters are the same letters position by position.\<close>

definition same_letter :: "char \<Rightarrow> char \<Rightarrow> bool" where
  "same_letter a b =
     (a = b
      \<or> (is_upper a \<and> (of_char b :: nat) = of_char a + 32)
      \<or> (is_upper b \<and> (of_char a :: nat) = of_char b + 32))"

definition case_variant :: "string \<Rightarrow> string \<Rightarrow> bool" where
  "case_variant s t = list_all2 same_letter s t"

text \<open>
  A request to \<^verbatim>\<open>ai.models.generateContent\<close>: the model name, the prompt and the
  thinking budget. The response schema is a constant of each adapter and plays no part in
  what the adapter does with the answer.
\<close>

record request =
  model :: string
  contents :: string
  thinkingBudget :: nat

text \<open>
  What the awaited promise of \<^verbatim>\<open>generateContent\<close> settles to: it rejects (the await
  throws), or it fulfils with a response whose \<^verbatim>\<open>text\<close> is a string or
  \<^verbatim>\<open>undefined\<close>.
\<close>

datatype gen_result = Rejected | Fulfilled "string option"

datatype error = ApiError | SyntaxError

text \<open>
  \<^verbatim>\<open>JSON.parse\<close> belongs to the runtime, not to the repository. It is a parameter
  \<open>parse\<close> of every adapter: \<open>None\<close> is the thrown \<^verbatim>\<open>SyntaxError\<close>.
\<close>

type_synonym parser = "string \<Rightarrow> json option"

definition JSON_parse :: "parser \<Rightarrow> string \<Rightarrow> error + json" where
  "JSON_parse parse s = (case parse s of None \<Rightarrow> Inl SyntaxError | Some v \<Rightarrow> Inr v)"

definition await_response :: "gen_result \<Rightarrow> error + string option" where
  "await_response r = (case r of Rejected \<Rightarrow> Inl ApiError | Fulfilled text \<Rightarrow> Inr text)"

section \<open>The cache\<close>

text \<open>The module-level \<^verbatim>\<open>cache\<close> object: five \<^verbatim>\<open>Map\<close>s from strings to values.\<close>

record cache =
  search :: "string \<rightharpoonup> json"
  status :: "string \<rightharpoonup> json"
  suggestions :: "string \<rightharpoonup> json"
  schedules :: "string \<rightharpoonup> json"
  coaches :: "string \<rightharpoonup> json"

definition empty_cache :: cache where
  "empty_cache =
     \<lparr>search = Map.empty, status = Map.empty, suggestions = Map.empty,
      schedules = Map.empty, coaches = Map.empty\<rparr>"

section \<open>The adapters\<close>

text \<open>
  Every adapter is an \<^verbatim>\<open>async\<close> function with a single \<^verbatim>\<open>await\<close>. It runs without
  interruption up to the await (\<open>_begin\<close>), where it has either returned already or
  issued its request and is suspended holding its cache key; when the promise settles it
  runs without interruption to its end (\<open>_resume\<close>). The body of the \<^verbatim>\<open>try\<close> block
  after the await is \<open>_try\<close>, with a thrown exception as \<open>Inl\<close>; \<open>_resume\<close> is that body
  under its \<^verbatim>\<open>catch\<close>.
\<close>

datatype ('a, 'k) started = Done 'a | Await request 'k

subsection \<open>getStationSuggestionsAI\<close>

definition getStationSuggestionsAI_begin :: "cache \<Rightarrow> string \<Rightarrow> (json, string) started" where
  "getStationSuggestionsAI_begin c query =
     (if query = [] \<or> length query < 2 then Done (JArr [])
      else
        let cacheKey = toLowerCase query in
        case suggestions c cacheKey of
          Some v \<Rightarrow> Done (or_else v (JArr []))
        | None \<Rightarrow>
            Await \<lparr>model = ''gemini-3-flash-preview'',
                   contents = ''List 5 popular Indian railway stations matching ''
                     @ [CHR 0x22] @ query @ [CHR 0x22] @ ''.'',
                   thinkingBudget = 0\<rparr> cacheKey)"

definition getStationSuggestionsAI_try ::
  "parser \<Rightarrow> cache \<Rightarrow> string \<Rightarrow> gen_result \<Rightarrow> error + (json \<times> cache)" where
  "getStationSuggestionsAI_try parse c cacheKey r =
     (case await_response r of
        Inl e \<Rightarrow> Inl e
      | Inr text \<Rightarrow>
          (case JSON_parse parse (text_or text ''[]'') of
             Inl e \<Rightarrow> Inl e
           | Inr results \<Rightarrow>
               Inr (results, c\<lparr>suggestions := (suggestions c)(cacheKey \<mapsto> results)\<rparr>)))"

definition getStationSuggestionsAI_resume ::
  "parser \<Rightarrow> cache \<Rightarrow> string \<Rightarrow> gen_result \<Rightarrow> json \<times> cache" where
  "getStationSuggestionsAI_resume parse c cacheKey r =
     (case getStationSuggestionsAI_try parse c cacheKey r of
        Inl e \<Rightarrow> (JArr [], c)
      | Inr res \<Rightarrow> res)"

subsection \<open>getCoachPositionAI\<close>

definition getCoachPositionAI_begin :: "cache \<Rightarrow> string \<Rightarrow> (json, string) started" where
  "getCoachPositionAI_begin c trainNumber =
     (case coaches c trainNumber of
        Some v \<Rightarrow> Done v
      | None \<Rightarrow>
          Await \<lparr>model = ''gemini-3-pro-preview'',
                 contents = ''Provide the coach position sequence for train '' @ trainNumber @ '' in India.'',
                 thinkingBudget = 32768\<rparr> trainNumber)"

definition getCoachPositionAI_try ::
  "parser \<Rightarrow> cache \<Rightarrow> string \<Rightarrow> gen_result \<Rightarrow> error + (json \<times> cache)" where
  "getCoachPositionAI_try parse c trainNumber r =
     (case await_response r of
        Inl e \<Rightarrow> Inl e
      | Inr text \<Rightarrow>
          (case JSON_parse parse (text_or text ''null'') of
             Inl e \<Rightarrow> Inl e
           | Inr result \<Rightarrow>
               Inr (result, c\<lparr>coaches := (coaches c)(trainNumber \<mapsto> result)\<rparr>)))"

definition getCoachPositionAI_resume ::
  "parser \<Rightarrow> cache \<Rightarrow> string \<Rightarrow> gen_result \<Rightarrow> json \<times> cache" where
  "getCoachPositionAI_resume parse c trainNumber r =
     (case getCoachPositionAI_try parse c trainNumber r of
        Inl e \<Rightarrow> (JNull, c)
      | Inr res \<Rightarrow> res)"

subsection \<open>getTrainScheduleAI\<close>

definition getTrainScheduleAI_begin :: "cache \<Rightarrow> string \<Rightarrow> (json, string) started" where
  "getTrainScheduleAI_begin c trainNumber =
     (case schedules c trainNumber of
        Some v \<Rightarrow> Done v
      | None \<Rightarrow>
          Await \<lparr>model = ''gemini-3-pro-preview'',
                 contents = ''Provide full route schedule for train '' @ trainNumber
                   @ ''. Include halt time (e.g. 5 min) and estimated platform number for each stop.'',
                 thinkingBudget = 32768\<rparr> trainNumber)"

definition getTrainScheduleAI_try ::
  "parser \<Rightarrow> cache \<Rightarrow> string \<Rightarrow> gen_result \<Rightarrow> error + (json \<times> cache)" where
  "getTrainScheduleAI_try parse c trainNumber r =
     (case await_response r of
        Inl e \<Rightarrow> Inl e
      | Inr text \<Rightarrow>
          (case JSON_parse parse (text_or text ''null'') of
             Inl e \<Rightarrow> Inl e
           | Inr result \<Rightarrow>
               Inr (result, c\<lparr>schedules := (schedules c)(trainNumber \<mapsto> result)\<rparr>)))"

definition getTrainScheduleAI_resume ::
  "parser \<Rightarrow> cache \<Rightarrow> string \<Rightarrow> gen_result \<Rightarrow> json \<times> cache" where
  "getTrainScheduleAI_resume parse c trainNumber r =
     (case getTrainScheduleAI_try parse c trainNumber r of
        Inl e \<Rightarrow> (JNull, c)
      | Inr res \<Rightarrow> res)"

subsection \<open>getRecentAlertsAI\<close>

text \<open>The alerts adapter takes no argument and touches no cache: it always issues its
  request, and has nothing to remember across the await.\<close>

definition getRecentAlertsAI_begin :: "(json, unit) started" where
  "getRecentAlertsAI_begin =
     Await \<lparr>model = ''gemini-3-flash-preview'',
            contents = ''Generate 4 realistic current Indian railway alerts (delays, platform changes, or weather impacts).'',
            thinkingBudget = 0\<rparr> ()"

definition getRecentAlertsAI_try :: "parser \<Rightarrow> gen_result \<Rightarrow> error + json" where
  "getRecentAlertsAI_try parse r =
     (case await_response r of
        Inl e \<Rightarrow> Inl e
      | Inr text \<Rightarrow> JSON_parse parse (text_or text ''[]''))"

definition getRecentAlertsAI_resume :: "parser \<Rightarrow> gen_result \<Rightarrow> json" where
  "getRecentAlertsAI_resume parse r =
     (case getRecentAlertsAI_try parse r of Inl e \<Rightarrow> JArr [] | Inr v \<Rightarrow> v)"

subsection \<open>searchTrainsAI\<close>

definition searchTrainsAI_begin :: "cache \<Rightarrow> string \<Rightarrow> string \<Rightarrow> (json, string) started" where
  "searchTrainsAI_begin c from to =
     (let cacheKey = toLowerCase from @ ''-'' @ toLowerCase to in
      case search c cacheKey of
        Some v \<Rightarrow> Done v
      | None \<Rightarrow>
          Await \<lparr>model = ''gemini-3-pro-preview'',
                 contents = ''Trains from '' @ from @ '' to '' @ to @ ''.'',
                 thinkingBudget = 32768\<rparr> cacheKey)"

definition searchTrainsAI_try ::
  "parser \<Rightarrow> cache \<Rightarrow> string \<Rightarrow> gen_result \<Rightarrow> error + (json \<times> cache)" where
  "searchTrainsAI_try parse c cacheKey r =
     (case await_response r of
        Inl e \<Rightarrow> Inl e
      | Inr text \<Rightarrow>
          (case JSON_parse parse (text_or text ''[]'') of
             Inl e \<Rightarrow> Inl e
           | Inr results \<Rightarrow>
               Inr (results, c\<lparr>search := (search c)(cacheKey \<mapsto> results)\<rparr>)))"

definition searchTrainsAI_resume ::
  "parser \<Rightarrow> cache \<Rightarrow> string \<Rightarrow> gen_result \<Rightarrow> json \<times> cache" where
  "searchTrainsAI_resume parse c cacheKey r =
     (case searchTrainsAI_try parse c cacheKey r of
        Inl e \<Rightarrow> (JArr [], c)
      | Inr res \<Rightarrow> res)"

subsection \<open>getLiveStatusAI\<close>

definition getLiveStatusAI_begin :: "cache \<Rightarrow> string \<Rightarrow> (json, string) started" where
  "getLiveStatusAI_begin c trainNumber =
     (case status c trainNumber of
        Some v \<Rightarrow> Done v
      | None \<Rightarrow>
          Await \<lparr>model = ''gemini-3-pro-preview'',
                 contents = ''Live status for '' @ trainNumber @ ''.'',
                 thinkingBudget = 32768\<rparr> trainNumber)"

definition getLiveStatusAI_try ::
  "parser \<Rightarrow> cache \<Rightarrow> string \<Rightarrow> gen_result \<Rightarrow> error + (json \<times> cache)" where
  "getLiveStatusAI_try parse c trainNumber r =
     (case await_response r of
        Inl e \<Rightarrow> Inl e
      | Inr text \<Rightarrow>
          (case JSON_parse parse (text_or text ''null'') of
             Inl e \<Rightarrow> Inl e
           | Inr result \<Rightarrow>
               Inr (result, c\<lparr>status := (status c)(trainNumber \<mapsto> result)\<rparr>)))"

definition getLiveStatusAI_resume ::
  "parser \<Rightarrow> cache \<Rightarrow> string \<Rightarrow> gen_result \<Rightarrow> json \<times> cache" where
  "getLiveStatusAI_resume parse c trainNumber r =
     (case getLiveStatusAI_try parse c trainNumber r of
        Inl e \<Rightarrow> (JNull, c)
      | Inr res \<Rightarrow> res)"

subsection \<open>getRailAssistantResponseStream\<close>

text \<open>
  \<^verbatim>\<open>generateContentStream\<close> rejects, or yields a stream of chunks, each with a text
  or none, that ends normally or breaks with an exception part-way. The callback
  \<^verbatim>\<open>onChunk\<close> is represented by the list of texts handed to it, in order.
\<close>

datatype stream_end = Completes | Breaks

datatype stream_result = StreamRejected | Streaming "string option list" stream_end

definition apology :: string where
  "apology = ''I'' @ [CHR 0x27] @ ''m having trouble connecting right now. Please try again!''"

text \<open>The \<^verbatim>\<open>for await\<close> loop over the chunks that arrive, on the pair of
  \<^verbatim>\<open>fullText\<close> and the texts delivered so far.\<close>

fun for_await :: "string option list \<Rightarrow> string \<times> string list \<Rightarrow> string \<times> string list" where
  "for_await [] acc = acc"
| "for_await (chunk # rest) (fullText, delivered) =
     (case chunk of
        None \<Rightarrow> for_await rest (fullText, delivered)
      | Some text \<Rightarrow>
          if text = [] then for_await rest (fullText, delivered)
          else for_await rest (fullText @ text, delivered @ [fullText @ text]))"

definition getRailAssistantResponseStream_request :: "string \<Rightarrow> request" where
  "getRailAssistantResponseStream_request query =
     \<lparr>model = ''gemini-3-flash-preview'', contents = query, thinkingBudget = 0\<rparr>"

definition getRailAssistantResponseStream_try ::
  "stream_result \<Rightarrow> (error + string) \<times> string list" where
  "getRailAssistantResponseStream_try sr =
     (case sr of
        StreamRejected \<Rightarrow> (Inl ApiError, [])
      | Streaming chunks e \<Rightarrow>
          (case for_await chunks ([], []) of
             (fullText, delivered) \<Rightarrow>
               (case e of
                  Completes \<Rightarrow> (Inr fullText, delivered)
                | Breaks \<Rightarrow> (Inl ApiError, delivered))))"

text \<open>The result is the returned string, the texts handed to \<^verbatim>\<open>onChunk\<close>, and the
  requests issued.\<close>

definition getRailAssistantResponseStream ::
  "string \<Rightarrow> stream_result \<Rightarrow> string \<times> string list \<times> request list" where
  "getRailAssistantResponseStream query sr =
     (case getRailAssistantResponseStream_try sr of
        (Inl e, delivered) \<Rightarrow>
          (''Error'', delivered @ [apology], [getRailAssistantResponseStream_request query])
      | (Inr fullText, delivered) \<Rightarrow>
          (fullText, delivered, [getRailAssistantResponseStream_request query]))"

subsection \<open>A whole call, run from entry to return\<close>

text \<open>
  A call that nothing interrupts between its await and its resumption: the value returned,
  the cache it leaves, and the requests it issued.
\<close>

definition getStationSuggestionsAI ::
  "parser \<Rightarrow> cache \<Rightarrow> string \<Rightarrow> gen_result \<Rightarrow> json \<times> cache \<times> request list" where
  "getStationSuggestionsAI parse c query r =
     (case getStationSuggestionsAI_begin c query of
        Done v \<Rightarrow> (v, c, [])
      | Await req k \<Rightarrow>
          (case getStationSuggestionsAI_resume parse c k r of (v, c') \<Rightarrow> (v, c', [req])))"

definition getCoachPositionAI ::
  "parser \<Rightarrow> cache \<Rightarrow> string \<Rightarrow> gen_result \<Rightarrow> json \<times> cache \<times> request list" where
  "getCoachPositionAI parse c trainNumber r =
     (case getCoachPositionAI_begin c trainNumber of
        Done v \<Rightarrow> (v, c, [])
      | Await req k \<Rightarrow>
          (case getCoachPositionAI_resume parse c k r of (v, c') \<Rightarrow> (v, c', [req])))"

definition getTrainScheduleAI ::
  "parser \<Rightarrow> cache \<Rightarrow> string \<Rightarrow> gen_result \<Rightarrow> json \<times> cache \<times> request list" where
  "getTrainScheduleAI parse c trainNumber r =
     (case getTrainScheduleAI_begin c trainNumber of
        Done v \<Rightarrow> (v, c, [])
      | Await req k \<Rightarrow>
          (case getTrainScheduleAI_resume parse c k r of (v, c') \<Rightarrow> (v, c', [req])))"

definition getRecentAlertsAI ::
  "parser \<Rightarrow> cache \<Rightarrow> gen_result \<Rightarrow> json \<times> cache \<times> request list" where
  "getRecentAlertsAI parse c r =
     (case getRecentAlertsAI_begin of
        Done v \<Rightarrow> (v, c, [])
      | Await req k \<Rightarrow> (getRecentAlertsAI_resume parse r, c, [req]))"

definition searchTrainsAI ::
  "parser \<Rightarrow> cache \<Rightarrow> string \<Rightarrow> string \<Rightarrow> gen_result \<Rightarrow> json \<times> cache \<times> request list" where
  "searchTrainsAI parse c from to r =
     (case searchTrainsAI_begin c from to of
        Done v \<Rightarrow> (v, c, [])
      | Await req k \<Rightarrow>
          (case searchTrainsAI_resume parse c k r of (v, c') \<Rightarrow> (v, c', [req])))"

definition getLiveStatusAI ::
  "parser \<Rightarrow> cache \<Rightarrow> string \<Rightarrow> gen_result \<Rightarrow> json \<times> cache \<times> request list" where
  "getLiveStatusAI parse c trainNumber r =
     (case getLiveStatusAI_begin c trainNumber of
        Done v \<Rightarrow> (v, c, [])
      | Await req k \<Rightarrow>
          (case getLiveStatusAI_resume parse c k r of (v, c') \<Rightarrow> (v, c', [req])))"

section \<open>Calls that overlap\<close>

text \<open>
  The runtime is single-threaded: a call runs from its entry to its await, then other
  code may run (other calls may begin, other promises may settle), and the call resumes
  when its own promise settles. The process below is the module's cache together with
  the calls suspended at their await; each of them remembers only what its closure
  holds, the cache key. The assistant stream never touches the cache and is not part of
  the process.
\<close>

datatype call =
    SearchTrains string string
  | GetLiveStatus string
  | GetStationSuggestions string
  | GetTrainSchedule string
  | GetCoachPosition string
  | GetRecentAlerts

datatype suspended =
    InSearch string
  | InStatus string
  | InSuggestions string
  | InSchedule string
  | InCoach string
  | InAlerts

definition suspend :: "('k \<Rightarrow> suspended) \<Rightarrow> (json, 'k) started \<Rightarrow> (json, suspended) started" where
  "suspend tag st = (case st of Done v \<Rightarrow> Done v | Await req k \<Rightarrow> Await req (tag k))"

fun invoke :: "cache \<Rightarrow> call \<Rightarrow> (json, suspended) started" where
  "invoke c (SearchTrains from to) = suspend InSearch (searchTrainsAI_begin c from to)"
| "invoke c (GetLiveStatus trainNumber) = suspend InStatus (getLiveStatusAI_begin c trainNumber)"
| "invoke c (GetStationSuggestions query) =
     suspend InSuggestions (getStationSuggestionsAI_begin c query)"
| "invoke c (GetTrainSchedule trainNumber) =
     suspend InSchedule (getTrainScheduleAI_begin c trainNumber)"
| "invoke c (GetCoachPosition trainNumber) =
     suspend InCoach (getCoachPositionAI_begin c trainNumber)"
| "invoke c GetRecentAlerts = suspend (\<lambda>u. InAlerts) getRecentAlertsAI_begin"

fun settle :: "parser \<Rightarrow> cache \<Rightarrow> suspended \<Rightarrow> gen_result \<Rightarrow> json \<times> cache" where
  "settle parse c (InSearch k) r = searchTrainsAI_resume parse c k r"
| "settle parse c (InStatus k) r = getLiveStatusAI_resume parse c k r"
| "settle parse c (InSuggestions k) r = getStationSuggestionsAI_resume parse c k r"
| "settle parse c (InSchedule k) r = getTrainScheduleAI_resume parse c k r"
| "settle parse c (InCoach k) r = getCoachPositionAI_resume parse c k r"
| "settle parse c InAlerts r = (getRecentAlertsAI_resume parse r, c)"

text \<open>The cache entry a suspended call will write, and the entry a call looks up.\<close>

fun entry :: "cache \<Rightarrow> suspended \<Rightarrow> json option" where
  "entry c (InSearch k) = search c k"
| "entry c (InStatus k) = status c k"
| "entry c (InSuggestions k) = suggestions c k"
| "entry c (InSchedule k) = schedules c k"
| "entry c (InCoach k) = coaches c k"
| "entry c InAlerts = None"

fun slot_of :: "call \<Rightarrow> suspended" where
  "slot_of (SearchTrains from to) = InSearch (toLowerCase from @ ''-'' @ toLowerCase to)"
| "slot_of (GetLiveStatus trainNumber) = InStatus trainNumber"
| "slot_of (GetStationSuggestions query) = InSuggestions (toLowerCase query)"
| "slot_of (GetTrainSchedule trainNumber) = InSchedule trainNumber"
| "slot_of (GetCoachPosition trainNumber) = InCoach trainNumber"
| "slot_of GetRecentAlerts = InAlerts"

record process =
  store :: cache
  waiting :: "suspended list"
  returned :: "json list"

text \<open>
  One step of the process: a new call begins, or the promise of the \<open>i\<close>-th suspended
  call settles and that call runs to its end. A settlement for a call that is not
  waiting does nothing.
\<close>

datatype action = Call call | Settle nat gen_result

fun step :: "parser \<Rightarrow> process \<Rightarrow> action \<Rightarrow> process" where
  "step parse p (Call cl) =
     (case invoke (store p) cl of
        Done v \<Rightarrow> p\<lparr>returned := returned p @ [v]\<rparr>
      | Await req s \<Rightarrow> p\<lparr>waiting := waiting p @ [s]\<rparr>)"
| "step parse p (Settle i r) =
     (if i < length (waiting p) then
        (case settle parse (store p) (waiting p ! i) r of
           (v, c') \<Rightarrow>
             \<lparr>store = c',
              waiting = take i (waiting p) @ drop (Suc i) (waiting p),
              returned = returned p @ [v]\<rparr>)
      else p)"

definition run :: "parser \<Rightarrow> process \<Rightarrow> action list \<Rightarrow> process" where
  "run parse p acts = foldl (step parse) p acts"

definition fresh_process :: process where
  "fresh_process = \<lparr>store = empty_cache, waiting = [], returned = []\<rparr>"

section \<open>The handlers of the view\<close>

text \<open>
  The state hooks of \<^verbatim>\<open>App.tsx\<close> that the submit and send handlers read or set.
\<close>

datatype AppView =
    View_home | View_search | View_live | View_pnr | View_schedule
  | View_alerts | View_coaches | View_live_search

record Train =
  number :: string
  name :: string
  source :: string
  destination :: string
  departureTime :: string
  arrivalTime :: string
  runningDays :: "string list"
  classes :: "string list"

datatype role = User | Bot

record app_state =
  view :: AppView
  searchFrom :: string
  searchTo :: string
  trainResults :: json
  isLoading :: bool
  selectedTrain :: "Train option"
  liveStatus :: json
  liveSearchInput :: string
  scheduleInput :: string
  scheduleData :: json
  coachInput :: string
  coachData :: json
  chatMessages :: "(role \<times> string) list"
  botInput :: string
  isBotTyping :: bool

text \<open>
  A handler runs on the view state and the module's cache. Its result is the state and
  cache it leaves, the adapter functions it invoked, and the requests those sent to the
  external model. \<^verbatim>\<open>e.preventDefault()\<close> acts on the event only and is left out.
\<close>

datatype invocation =
    Adapter call
  | AssistantStream string

record world =
  ui :: app_state
  mem :: cache

type_synonym outcome = "world \<times> invocation list \<times> request list"

definition handleSearch :: "parser \<Rightarrow> world \<Rightarrow> gen_result \<Rightarrow> outcome" where
  "handleSearch parse w r =
     (if searchFrom (ui w) = [] \<or> searchTo (ui w) = [] then (w, [], [])
      else
        let u1 = (ui w)\<lparr>isLoading := True, view := View_search\<rparr> in
        case searchTrainsAI parse (mem w) (searchFrom (ui w)) (searchTo (ui w)) r of
          (results, c', reqs) \<Rightarrow>
            (\<lparr>ui = u1\<lparr>trainResults := results, isLoading := False\<rparr>, mem = c'\<rparr>,
             [Adapter (SearchTrains (searchFrom (ui w)) (searchTo (ui w)))],
             reqs))"

definition handleLiveSearch :: "parser \<Rightarrow> world \<Rightarrow> gen_result \<Rightarrow> outcome" where
  "handleLiveSearch parse w r =
     (if liveSearchInput (ui w) = [] then (w, [], [])
      else
        let u1 = (ui w)\<lparr>isLoading := True,
                        liveStatus := JNull,
                        selectedTrain := Some
                          \<lparr>number = liveSearchInput (ui w),
                           name = ''Voyager '' @ liveSearchInput (ui w),
                           source = ''---'',
                           destination = ''---'',
                           departureTime = ''--:--'',
                           arrivalTime = ''--:--'',
                           runningDays = [],
                           classes = []\<rparr>,
                        view := View_live\<rparr> in
        case getLiveStatusAI parse (mem w) (liveSearchInput (ui w)) r of
          (st, c', reqs) \<Rightarrow>
            (\<lparr>ui = u1\<lparr>liveStatus := st, isLoading := False\<rparr>, mem = c'\<rparr>,
             [Adapter (GetLiveStatus (liveSearchInput (ui w)))],
             reqs))"

definition handleScheduleSearch :: "parser \<Rightarrow> world \<Rightarrow> gen_result \<Rightarrow> outcome" where
  "handleScheduleSearch parse w r =
     (if scheduleInput (ui w) = [] then (w, [], [])
      else
        let u1 = (ui w)\<lparr>isLoading := True\<rparr> in
        case getTrainScheduleAI parse (mem w) (scheduleInput (ui w)) r of
          (data, c', reqs) \<Rightarrow>
            (\<lparr>ui = u1\<lparr>scheduleData := data, isLoading := False\<rparr>, mem = c'\<rparr>,
             [Adapter (GetTrainSchedule (scheduleInput (ui w)))],
             reqs))"

definition handleCoachSearch :: "parser \<Rightarrow> world \<Rightarrow> gen_result \<Rightarrow> outcome" where
  "handleCoachSearch parse w r =
     (if coachInput (ui w) = [] then (w, [], [])
      else
        let u1 = (ui w)\<lparr>isLoading := True\<rparr> in
        case getCoachPositionAI parse (mem w) (coachInput (ui w)) r of
          (data, c', reqs) \<Rightarrow>
            (\<lparr>ui = u1\<lparr>coachData := data, isLoading := False\<rparr>, mem = c'\<rparr>,
             [Adapter (GetCoachPosition (coachInput (ui w)))],
             reqs))"

text \<open>\<^verbatim>\<open>trim\<close> removes white space at both ends; the white space of the 8-bit
  characters is tab, line feed, vertical tab, form feed, carriage return, space and the
  no-break space.\<close>

definition is_space :: "char \<Rightarrow> bool" where
  "is_space ch = ((of_char ch :: nat) \<in> {9, 10, 11, 12, 13, 32, 160})"

definition trim :: "string \<Rightarrow> string" where
  "trim s = rev (dropWhile is_space (rev (dropWhile is_space s)))"

text \<open>The callback that \<^verbatim>\<open>handleSendMessage\<close> passes as \<^verbatim>\<open>onChunk\<close>: it replaces the
  text of the last message when that message is the bot's.\<close>

definition onStreamedText :: "string \<Rightarrow> (role \<times> string) list \<Rightarrow> (role \<times> string) list" where
  "onStreamedText streamedText prev =
     (if prev \<noteq> [] \<and> fst (last prev) = Bot then butlast prev @ [(Bot, streamedText)]
      else prev)"

definition handleSendMessage :: "world \<Rightarrow> stream_result \<Rightarrow> outcome" where
  "handleSendMessage w sr =
     (if trim (botInput (ui w)) = [] \<or> isBotTyping (ui w) then (w, [], [])
      else
        let userMsg = botInput (ui w);
            u1 = (ui w)\<lparr>botInput := [],
                        chatMessages := chatMessages (ui w) @ [(User, userMsg)] @ [(Bot, [])],
                        isBotTyping := True\<rparr> in
        case getRailAssistantResponseStream userMsg sr of
          (answer, delivered, reqs) \<Rightarrow>
            (\<lparr>ui = u1\<lparr>chatMessages := foldl (\<lambda>prev t. onStreamedText t prev)
                                          (chatMessages u1) delivered,
                       isBotTyping := False\<rparr>,
              mem = mem w\<rparr>,
             [AssistantStream userMsg],
             reqs))"

section \<open>Sample data\<close>

text \<open>
  A parser for evaluating examples. It agrees with \<^verbatim>\<open>JSON.parse\<close> on the texts the
  examples use: the four valid texts below, and \<^verbatim>\<open><html>\<close>, which
  \<^verbatim>\<open>JSON.parse\<close> rejects.
\<close>

definition sample_parse :: parser where
  "sample_parse s =
     (if s = ''[]'' then Some (JArr [])
      else if s = ''null'' then Some JNull
      else if s = ''{}'' then Some (JObj [])
      else if s = ''[1]'' then Some (JArr [JNum 1])
      else None)"

definition sample_cache :: cache where
  "sample_cache =
     \<lparr>search = [''delhi-agra'' \<mapsto> JArr [JNum 1]],
      status = [''12951'' \<mapsto> JObj []],
      suggestions = [''de'' \<mapsto> JArr [JStr ''Delhi (DLI)'']],
      schedules = [''12951'' \<mapsto> JObj []],
      coaches = [''12951'' \<mapsto> JNull]\<rparr>"

definition sample_ui :: app_state where
  "sample_ui =
     \<lparr>view = View_home, searchFrom = ''Delhi'', searchTo = ''Agra'', trainResults = JArr [],
      isLoading = False, selectedTrain = None, liveStatus = JNull,
      liveSearchInput = ''12951'', scheduleInput = ''12951'', scheduleData = JNull,
      coachInput = ''12951'', coachData = JNull,
      chatMessages = [(Bot, ''Welcome'')], botInput = ''Platform?'', isBotTyping = False\<rparr>"

definition sample_world :: world where
  "sample_world = \<lparr>ui = sample_ui, mem = empty_cache\<rparr>"

section \<open>Basic facts\<close>

lemmas eval_defs =
  run_def fresh_process_def empty_cache_def suspend_def
  searchTrainsAI_begin_def getLiveStatusAI_begin_def getStationSuggestionsAI_begin_def
  getTrainScheduleAI_begin_def getCoachPositionAI_begin_def getRecentAlertsAI_begin_def
  searchTrainsAI_resume_def getLiveStatusAI_resume_def getStationSuggestionsAI_resume_def
  getTrainScheduleAI_resume_def getCoachPositionAI_resume_def getRecentAlertsAI_resume_def
  searchTrainsAI_try_def getLiveStatusAI_try_def getStationSuggestionsAI_try_def
  getTrainScheduleAI_try_def getCoachPositionAI_try_def getRecentAlertsAI_try_def
  searchTrainsAI_def getLiveStatusAI_def getStationSuggestionsAI_def
  getTrainScheduleAI_def getCoachPositionAI_def getRecentAlertsAI_def
  getRailAssistantResponseStream_def getRailAssistantResponseStream_try_def
  await_response_def JSON_parse_def text_or_def sample_parse_def or_else_def

lemma await_response_Rejected: "await_response Rejected = Inl ApiError"
  by (simp add: await_response_def)

lemma lower_char_D: "lower_char CHR ''D'' = CHR ''d''"
  by code_simp

lemma lower_char_E: "lower_char CHR ''E'' = CHR ''e''"
  by code_simp

lemma lower_char_A: "lower_char CHR ''A'' = CHR ''a''"
  by code_simp

lemma lower_char_other: "\<not> is_upper ch \<Longrightarrow> lower_char ch = ch"
  by (simp add: lower_char_def)

lemmas lower_evals =
  toLowerCase_def lower_char_other is_upper_def lower_char_D lower_char_E lower_char_A

text \<open>C1. When the external call of an adapter throws, the adapter returns its safe
  default: a call that has issued its request and sees the promise reject returns an
  empty array (searchTrainsAI, getStationSuggestionsAI, getRecentAlertsAI) or null
  (getLiveStatusAI, getTrainScheduleAI, getCoachPositionAI) and leaves the cache as it
  was; the assistant stream hands the apology to its callback and returns, whether the
  call rejects at once or the stream breaks after some chunks.\<close>

theorem external_call_throws_safe_default:
  "(searchTrainsAI_begin c from to = Await req k \<longrightarrow>
      searchTrainsAI parse c from to Rejected = (JArr [], c, [req]))
   \<and> (getStationSuggestionsAI_begin c query = Await req k \<longrightarrow>
      getStationSuggestionsAI parse c query Rejected = (JArr [], c, [req]))
   \<and> (getRecentAlertsAI_begin = Await req u \<longrightarrow>
      getRecentAlertsAI parse c Rejected = (JArr [], c, [req]))
   \<and> (getLiveStatusAI_begin c trainNumber = Await req k \<longrightarrow>
      getLiveStatusAI parse c trainNumber Rejected = (JNull, c, [req]))
   \<and> (getTrainScheduleAI_begin c trainNumber = Await req k \<longrightarrow>
      getTrainScheduleAI parse c trainNumber Rejected = (JNull, c, [req]))
   \<and> (getCoachPositionAI_begin c trainNumber = Await req k \<longrightarrow>
      getCoachPositionAI parse c trainNumber Rejected = (JNull, c, [req]))
   \<and> getRailAssistantResponseStream q StreamRejected =
        (''Error'', [apology], [getRailAssistantResponseStream_request q])
   \<and> (\<exists>delivered.
        getRailAssistantResponseStream q (Streaming chunks Breaks) =
          (''Error'', delivered @ [apology], [getRailAssistantResponseStream_request q]))"
proof -
  have stream: "\<exists>delivered.
        getRailAssistantResponseStream q (Streaming chunks Breaks) =
          (''Error'', delivered @ [apology], [getRailAssistantResponseStream_request q])"
    by (simp add: getRailAssistantResponseStream_def getRailAssistantResponseStream_try_def
        split: prod.splits)
  have rejected: "getRailAssistantResponseStream q StreamRejected =
        (''Error'', [apology], [getRailAssistantResponseStream_request q])"
    by (simp add: getRailAssistantResponseStream_def getRailAssistantResponseStream_try_def)
  have search: "searchTrainsAI_begin c from to = Await req k \<longrightarrow>
      searchTrainsAI parse c from to Rejected = (JArr [], c, [req])"
    by (simp add: searchTrainsAI_def searchTrainsAI_resume_def searchTrainsAI_try_def
        await_response_Rejected)
  have sugg: "getStationSuggestionsAI_begin c query = Await req k \<longrightarrow>
      getStationSuggestionsAI parse c query Rejected = (JArr [], c, [req])"
    by (simp add: getStationSuggestionsAI_def getStationSuggestionsAI_resume_def
        getStationSuggestionsAI_try_def await_response_Rejected)
  have alerts: "getRecentAlertsAI_begin = Await req u \<longrightarrow>
      getRecentAlertsAI parse c Rejected = (JArr [], c, [req])"
    by (simp add: getRecentAlertsAI_def getRecentAlertsAI_begin_def
        getRecentAlertsAI_resume_def getRecentAlertsAI_try_def await_response_Rejected)
  have live: "getLiveStatusAI_begin c trainNumber = Await req k \<longrightarrow>
      getLiveStatusAI parse c trainNumber Rejected = (JNull, c, [req])"
    by (simp add: getLiveStatusAI_def getLiveStatusAI_resume_def getLiveStatusAI_try_def
        await_response_Rejected)
  have sched: "getTrainScheduleAI_begin c trainNumber = Await req k \<longrightarrow>
      getTrainScheduleAI parse c trainNumber Rejected = (JNull, c, [req])"
    by (simp add: getTrainScheduleAI_def getTrainScheduleAI_resume_def
        getTrainScheduleAI_try_def await_response_Rejected)
  have coach: "getCoachPositionAI_begin c trainNumber = Await req k \<longrightarrow>
      getCoachPositionAI parse c trainNumber Rejected = (JNull, c, [req])"
    by (simp add: getCoachPositionAI_def getCoachPositionAI_resume_def
        getCoachPositionAI_try_def await_response_Rejected)
  from search sugg alerts live sched coach rejected stream show ?thesis
    by blast
qed

text \<open>C1, at concrete inputs on the empty cache: each of the six requests is issued and
  rejected, and the stream breaks after one chunk.\<close>

theorem external_call_throws_safe_default_witness:
  "searchTrainsAI_begin empty_cache ''Delhi'' ''Agra'' =
      Await \<lparr>model = ''gemini-3-pro-preview'', contents = ''Trains from Delhi to Agra.'',
             thinkingBudget = 32768\<rparr> ''delhi-agra''
   \<and> searchTrainsAI sample_parse empty_cache ''Delhi'' ''Agra'' Rejected =
      (JArr [], empty_cache,
       [\<lparr>model = ''gemini-3-pro-preview'', contents = ''Trains from Delhi to Agra.'',
         thinkingBudget = 32768\<rparr>])
   \<and> getStationSuggestionsAI_begin empty_cache ''De'' =
      Await \<lparr>model = ''gemini-3-flash-preview'',
             contents = ''List 5 popular Indian railway stations matching ''
               @ [CHR 0x22] @ ''De'' @ [CHR 0x22] @ ''.'',
             thinkingBudget = 0\<rparr> ''de''
   \<and> fst (getStationSuggestionsAI sample_parse empty_cache ''De'' Rejected) = JArr []
   \<and> fst (getRecentAlertsAI sample_parse empty_cache Rejected) = JArr []
   \<and> getLiveStatusAI_begin empty_cache ''12951'' =
      Await \<lparr>model = ''gemini-3-pro-preview'', contents = ''Live status for 12951.'',
             thinkingBudget = 32768\<rparr> ''12951''
   \<and> fst (getLiveStatusAI sample_parse empty_cache ''12951'' Rejected) = JNull
   \<and> fst (getTrainScheduleAI sample_parse empty_cache ''12951'' Rejected) = JNull
   \<and> fst (getCoachPositionAI sample_parse empty_cache ''12951'' Rejected) = JNull
   \<and> getRailAssistantResponseStream ''Which platform?'' StreamRejected =
        (''Error'', [apology], [getRailAssistantResponseStream_request ''Which platform?''])"
proof -
  note t = external_call_throws_safe_default
  have h1: "searchTrainsAI_begin empty_cache ''Delhi'' ''Agra'' =
      Await \<lparr>model = ''gemini-3-pro-preview'', contents = ''Trains from Delhi to Agra.'',
             thinkingBudget = 32768\<rparr> ''delhi-agra''"
    by (simp add: searchTrainsAI_begin_def empty_cache_def lower_evals)
  have h2: "getStationSuggestionsAI_begin empty_cache ''De'' =
      Await \<lparr>model = ''gemini-3-flash-preview'',
             contents = ''List 5 popular Indian railway stations matching ''
               @ [CHR 0x22] @ ''De'' @ [CHR 0x22] @ ''.'',
             thinkingBudget = 0\<rparr> ''de''"
    by (simp add: getStationSuggestionsAI_begin_def empty_cache_def lower_evals)
  have h3: "getRecentAlertsAI_begin = Await \<lparr>model = ''gemini-3-flash-preview'',
            contents = ''Generate 4 realistic current Indian railway alerts (delays, platform changes, or weather impacts).'',
            thinkingBudget = 0\<rparr> ()"
    by (simp add: getRecentAlertsAI_begin_def)
  have h4: "getLiveStatusAI_begin empty_cache ''12951'' =
      Await \<lparr>model = ''gemini-3-pro-preview'', contents = ''Live status for 12951.'',
             thinkingBudget = 32768\<rparr> ''12951''"
    by (simp add: getLiveStatusAI_begin_def empty_cache_def)
  have h5: "getTrainScheduleAI_begin empty_cache ''12951'' =
      Await \<lparr>model = ''gemini-3-pro-preview'',
             contents = ''Provide full route schedule for train 12951. Include halt time (e.g. 5 min) and estimated platform number for each stop.'',
             thinkingBudget = 32768\<rparr> ''12951''"
    by (simp add: getTrainScheduleAI_begin_def empty_cache_def)
  have h6: "getCoachPositionAI_begin empty_cache ''12951'' =
      Await \<lparr>model = ''gemini-3-pro-preview'',
             contents = ''Provide the coach position sequence for train 12951 in India.'',
             thinkingBudget = 32768\<rparr> ''12951''"
    by (simp add: getCoachPositionAI_begin_def empty_cache_def)
  from t [where c = empty_cache and ?from = "''Delhi''" and to = "''Agra''"
      and parse = sample_parse, THEN conjunct1] h1
  have c1: "searchTrainsAI sample_parse empty_cache ''Delhi'' ''Agra'' Rejected =
      (JArr [], empty_cache,
       [\<lparr>model = ''gemini-3-pro-preview'', contents = ''Trains from Delhi to Agra.'',
         thinkingBudget = 32768\<rparr>])"
    by blast
  from t [where c = empty_cache and query = "''De''" and parse = sample_parse,
      THEN conjunct2, THEN conjunct1] h2
  have c2: "fst (getStationSuggestionsAI sample_parse empty_cache ''De'' Rejected) = JArr []"
    by simp
  from t [where c = empty_cache and parse = sample_parse,
      THEN conjunct2, THEN conjunct2, THEN conjunct1] h3
  have c3: "fst (getRecentAlertsAI sample_parse empty_cache Rejected) = JArr []"
    by simp
  from t [where c = empty_cache and trainNumber = "''12951''" and parse = sample_parse,
      THEN conjunct2, THEN conjunct2, THEN conjunct2, THEN conjunct1] h4
  have c4: "fst (getLiveStatusAI sample_parse empty_cache ''12951'' Rejected) = JNull"
    by simp
  from t [where c = empty_cache and trainNumber = "''12951''" and parse = sample_parse,
      THEN conjunct2, THEN conjunct2, THEN conjunct2, THEN conjunct2, THEN conjunct1] h5
  have c5: "fst (getTrainScheduleAI sample_parse empty_cache ''12951'' Rejected) = JNull"
    by simp
  from t [where c = empty_cache and trainNumber = "''12951''" and parse = sample_parse,
      THEN conjunct2, THEN conjunct2, THEN conjunct2, THEN conjunct2, THEN conjunct2,
      THEN conjunct1] h6
  have c6: "fst (getCoachPositionAI sample_parse empty_cache ''12951'' Rejected) = JNull"
    by simp
  from t [where q = "''Which platform?''"]
  have c7: "getRailAssistantResponseStream ''Which platform?'' StreamRejected =
        (''Error'', [apology], [getRailAssistantResponseStream_request ''Which platform?''])"
    by blast
  from h1 h2 h4 c1 c2 c3 c4 c5 c6 c7 show ?thesis by blast
qed

text \<open>C2 fails for the assistant stream: when its call rejects it returns the string
  \<^verbatim>\<open>"Error"\<close>, which is neither an empty collection nor null.\<close>

theorem failure_value_counterexample:
  "fst (getRailAssistantResponseStream ''Which platform?'' StreamRejected) = ''Error''
   \<and> fst (getRailAssistantResponseStream ''Which platform?'' StreamRejected) \<noteq> []"
  by (simp add: getRailAssistantResponseStream_def getRailAssistantResponseStream_try_def)

text \<open>C2, amended. Whenever the \<^verbatim>\<open>try\<close> block of an adapter throws (the promise
  rejected or the text did not parse), the adapter returns instead of throwing, and the
  value returned is an empty array for searchTrainsAI, getStationSuggestionsAI and
  getRecentAlertsAI, null for getLiveStatusAI, getTrainScheduleAI and getCoachPositionAI,
  and the string \<^verbatim>\<open>"Error"\<close> for getRailAssistantResponseStream, after the apology
  has been handed to the callback.\<close>

theorem failure_swallowed_values:
  "(searchTrainsAI_try parse c k r = Inl e \<longrightarrow>
      searchTrainsAI_resume parse c k r = (JArr [], c))
   \<and> (getStationSuggestionsAI_try parse c k r = Inl e \<longrightarrow>
      getStationSuggestionsAI_resume parse c k r = (JArr [], c))
   \<and> (getRecentAlertsAI_try parse r = Inl e \<longrightarrow>
      getRecentAlertsAI_resume parse r = JArr [])
   \<and> (getLiveStatusAI_try parse c k r = Inl e \<longrightarrow>
      getLiveStatusAI_resume parse c k r = (JNull, c))
   \<and> (getTrainScheduleAI_try parse c k r = Inl e \<longrightarrow>
      getTrainScheduleAI_resume parse c k r = (JNull, c))
   \<and> (getCoachPositionAI_try parse c k r = Inl e \<longrightarrow>
      getCoachPositionAI_resume parse c k r = (JNull, c))
   \<and> (fst (getRailAssistantResponseStream_try sr) = Inl e \<longrightarrow>
      getRailAssistantResponseStream q sr =
        (''Error'', snd (getRailAssistantResponseStream_try sr) @ [apology],
         [getRailAssistantResponseStream_request q]))"
  by (simp add: searchTrainsAI_resume_def getStationSuggestionsAI_resume_def
      getRecentAlertsAI_resume_def getLiveStatusAI_resume_def getTrainScheduleAI_resume_def
      getCoachPositionAI_resume_def getRailAssistantResponseStream_def split: prod.splits)

text \<open>C2 amended, at concrete inputs: rejected promises, a text that does not parse, and
  a stream that breaks after one chunk.\<close>

theorem failure_swallowed_values_witness:
  "searchTrainsAI_try sample_parse empty_cache ''delhi-agra'' Rejected = Inl ApiError
   \<and> searchTrainsAI_resume sample_parse empty_cache ''delhi-agra'' Rejected = (JArr [], empty_cache)
   \<and> getStationSuggestionsAI_try sample_parse empty_cache ''de'' (Fulfilled (Some ''<html>''))
        = Inl SyntaxError
   \<and> getStationSuggestionsAI_resume sample_parse empty_cache ''de'' (Fulfilled (Some ''<html>''))
        = (JArr [], empty_cache)
   \<and> getRecentAlertsAI_try sample_parse (Fulfilled (Some ''<html>'')) = Inl SyntaxError
   \<and> getRecentAlertsAI_resume sample_parse (Fulfilled (Some ''<html>'')) = JArr []
   \<and> getLiveStatusAI_try sample_parse empty_cache ''12951'' Rejected = Inl ApiError
   \<and> getLiveStatusAI_resume sample_parse empty_cache ''12951'' Rejected = (JNull, empty_cache)
   \<and> getTrainScheduleAI_try sample_parse empty_cache ''12951'' (Fulfilled (Some ''<html>''))
        = Inl SyntaxError
   \<and> getTrainScheduleAI_resume sample_parse empty_cache ''12951'' (Fulfilled (Some ''<html>''))
        = (JNull, empty_cache)
   \<and> getCoachPositionAI_try sample_parse empty_cache ''12951'' Rejected = Inl ApiError
   \<and> getCoachPositionAI_resume sample_parse empty_cache ''12951'' Rejected = (JNull, empty_cache)
   \<and> fst (getRailAssistantResponseStream_try (Streaming [Some ''Plat''] Breaks)) = Inl ApiError
   \<and> getRailAssistantResponseStream ''Which platform?'' (Streaming [Some ''Plat''] Breaks)
        = (''Error'', [''Plat'', apology],
           [getRailAssistantResponseStream_request ''Which platform?''])"
proof -
  have h1: "searchTrainsAI_try sample_parse empty_cache ''delhi-agra'' Rejected = Inl ApiError"
    by (simp add: searchTrainsAI_try_def await_response_def)
  have h2: "getStationSuggestionsAI_try sample_parse empty_cache ''de'' (Fulfilled (Some ''<html>''))
      = Inl SyntaxError"
    by (simp add: getStationSuggestionsAI_try_def await_response_def JSON_parse_def text_or_def
        sample_parse_def)
  have h3: "getRecentAlertsAI_try sample_parse (Fulfilled (Some ''<html>'')) = Inl SyntaxError"
    by (simp add: getRecentAlertsAI_try_def await_response_def JSON_parse_def text_or_def
        sample_parse_def)
  have h4: "getLiveStatusAI_try sample_parse empty_cache ''12951'' Rejected = Inl ApiError"
    by (simp add: getLiveStatusAI_try_def await_response_def)
  have h5: "getTrainScheduleAI_try sample_parse empty_cache ''12951'' (Fulfilled (Some ''<html>''))
      = Inl SyntaxError"
    by (simp add: getTrainScheduleAI_try_def await_response_def JSON_parse_def text_or_def
        sample_parse_def)
  have h6: "getCoachPositionAI_try sample_parse empty_cache ''12951'' Rejected = Inl ApiError"
    by (simp add: getCoachPositionAI_try_def await_response_def)
  have h7: "getRailAssistantResponseStream_try (Streaming [Some ''Plat''] Breaks)
      = (Inl ApiError, [''Plat''])"
    by (simp add: getRailAssistantResponseStream_try_def)
  note t = failure_swallowed_values
  from t [of sample_parse empty_cache "''delhi-agra''" Rejected ApiError] h1
  have c1: "searchTrainsAI_resume sample_parse empty_cache ''delhi-agra'' Rejected
      = (JArr [], empty_cache)" by blast
  from t [of sample_parse empty_cache "''de''" "Fulfilled (Some ''<html>'')" SyntaxError] h2 h3
  have c2: "getStationSuggestionsAI_resume sample_parse empty_cache ''de'' (Fulfilled (Some ''<html>''))
        = (JArr [], empty_cache)"
    and c3: "getRecentAlertsAI_resume sample_parse (Fulfilled (Some ''<html>'')) = JArr []"
    by blast+
  from t [of sample_parse empty_cache "''12951''" Rejected ApiError] h4 h6
  have c4: "getLiveStatusAI_resume sample_parse empty_cache ''12951'' Rejected = (JNull, empty_cache)"
    and c6: "getCoachPositionAI_resume sample_parse empty_cache ''12951'' Rejected = (JNull, empty_cache)"
    by blast+
  from t [of sample_parse empty_cache "''12951''" "Fulfilled (Some ''<html>'')" SyntaxError] h5
  have c5: "getTrainScheduleAI_resume sample_parse empty_cache ''12951'' (Fulfilled (Some ''<html>''))
        = (JNull, empty_cache)" by blast
  from t [of _ _ _ _ ApiError "Streaming [Some ''Plat''] Breaks" "''Which platform?''"] h7
  have c7: "getRailAssistantResponseStream ''Which platform?'' (Streaming [Some ''Plat''] Breaks)
        = (''Error'', [''Plat'', apology],
           [getRailAssistantResponseStream_request ''Which platform?''])"
    by simp
  from h1 h2 h3 h4 h5 h6 h7 c1 c2 c3 c4 c5 c6 c7 show ?thesis by simp
qed

section \<open>Entries under overlapping calls\<close>

lemma suspend_Await:
  "suspend tag st = Await req s \<longleftrightarrow> (\<exists>k. st = Await req k \<and> s = tag k)"
  by (cases st) (auto simp: suspend_def)

lemma invoke_Await_misses: "invoke c cl = Await req s \<Longrightarrow> entry c s = None"
  by (cases cl)
    (auto simp: suspend_Await searchTrainsAI_begin_def getLiveStatusAI_begin_def
      getStationSuggestionsAI_begin_def getTrainScheduleAI_begin_def getCoachPositionAI_begin_def
      Let_def split: option.splits if_splits)

lemma settle_other_entry: "s \<noteq> s0 \<Longrightarrow> entry (snd (settle parse c s r)) s0 = entry c s0"
  by (cases s; cases s0)
    (auto simp: searchTrainsAI_resume_def searchTrainsAI_try_def getLiveStatusAI_resume_def
      getLiveStatusAI_try_def getStationSuggestionsAI_resume_def getStationSuggestionsAI_try_def
      getTrainScheduleAI_resume_def getTrainScheduleAI_try_def getCoachPositionAI_resume_def
      getCoachPositionAI_try_def split: sum.splits)

lemma settle_keeps_entry: "entry c s0 \<noteq> None \<Longrightarrow> entry (snd (settle parse c s r)) s0 \<noteq> None"
  by (cases s; cases s0)
    (auto simp: searchTrainsAI_resume_def searchTrainsAI_try_def getLiveStatusAI_resume_def
      getLiveStatusAI_try_def getStationSuggestionsAI_resume_def getStationSuggestionsAI_try_def
      getTrainScheduleAI_resume_def getTrainScheduleAI_try_def getCoachPositionAI_resume_def
      getCoachPositionAI_try_def split: sum.splits)

lemma step_Settle_store:
  "i < length (waiting p) \<Longrightarrow>
   store (step parse p (Settle i r)) = snd (settle parse (store p) (waiting p ! i) r)"
  by (simp split: prod.splits)

lemma step_Settle_waiting:
  "i < length (waiting p) \<Longrightarrow>
   waiting (step parse p (Settle i r)) = take i (waiting p) @ drop (Suc i) (waiting p)"
  by (simp split: prod.splits)

lemma step_keeps_entry:
  "entry (store p) s0 \<noteq> None \<Longrightarrow> entry (store (step parse p a)) s0 \<noteq> None"
proof (cases a)
  case (Call cl)
  assume "entry (store p) s0 \<noteq> None"
  with Call show ?thesis by (simp split: started.splits)
next
  case (Settle i r)
  assume h: "entry (store p) s0 \<noteq> None"
  show ?thesis
  proof (cases "i < length (waiting p)")
    case True
    from settle_keeps_entry [OF h, of parse "waiting p ! i" r]
    show ?thesis using Settle True by (simp add: step_Settle_store del: step.simps)
  next
    case False
    with Settle h show ?thesis by simp
  qed
qed

lemma step_settled_entry:
  assumes "entry (store p) s0 = Some v" and "s0 \<notin> set (waiting p)"
  shows "entry (store (step parse p a)) s0 = Some v \<and> s0 \<notin> set (waiting (step parse p a))"
proof (cases a)
  case (Call cl)
  show ?thesis
  proof (cases "invoke (store p) cl")
    case (Done x)
    with Call assms show ?thesis by simp
  next
    case (Await req s)
    from invoke_Await_misses [OF Await] assms(1) have "s \<noteq> s0" by auto
    with Call Await assms show ?thesis by simp
  qed
next
  case (Settle i r)
  show ?thesis
  proof (cases "i < length (waiting p)")
    case True
    with assms(2) have ne: "waiting p ! i \<noteq> s0" by (metis nth_mem)
    from assms(2) have w: "s0 \<notin> set (take i (waiting p) @ drop (Suc i) (waiting p))"
      by (auto dest: in_set_takeD in_set_dropD)
    from settle_other_entry [OF ne, of parse "store p" r] assms(1)
    have "entry (snd (settle parse (store p) (waiting p ! i) r)) s0 = Some v" by simp
    with Settle True w show ?thesis
      by (simp add: step_Settle_store step_Settle_waiting del: step.simps)
  next
    case False
    with Settle assms show ?thesis by simp
  qed
qed

lemma run_settled_entry:
  "entry (store p) s0 = Some v \<Longrightarrow> s0 \<notin> set (waiting p) \<Longrightarrow>
   entry (store (run parse p acts)) s0 = Some v \<and> s0 \<notin> set (waiting (run parse p acts))"
proof (induction acts arbitrary: p)
  case Nil
  then show ?case by (simp add: run_def)
next
  case (Cons a acts)
  from step_settled_entry [OF Cons.prems, of parse a]
  have "entry (store (step parse p a)) s0 = Some v" and "s0 \<notin> set (waiting (step parse p a))"
    by simp_all
  from Cons.IH [OF this] show ?case by (simp add: run_def)
qed

lemma run_keeps_entry:
  "entry (store p) s0 \<noteq> None \<Longrightarrow> entry (store (run parse p acts)) s0 \<noteq> None"
proof (induction acts arbitrary: p)
  case Nil
  then show ?case by (simp add: run_def)
next
  case (Cons a acts)
  from Cons.IH [OF step_keeps_entry [OF Cons.prems, of parse a]]
  show ?case by (simp add: run_def)
qed

lemma invoke_hit:
  "entry c (slot_of cl) = Some v \<Longrightarrow>
   invoke c cl =
     Done (case cl of
             GetStationSuggestions query \<Rightarrow>
               if length query < 2 then JArr [] else or_else v (JArr [])
           | _ \<Rightarrow> v)"
  by (cases cl)
    (auto simp: suspend_def searchTrainsAI_begin_def getLiveStatusAI_begin_def
      getStationSuggestionsAI_begin_def getTrainScheduleAI_begin_def getCoachPositionAI_begin_def
      Let_def)

section \<open>A second call\<close>

lemma searchTrainsAI_again:
  assumes "searchTrainsAI parse c from to r1 = (v, c', reqs)"
    and "search c' (toLowerCase from @ ''-'' @ toLowerCase to) \<noteq> None"
  shows "searchTrainsAI parse c' from to r2 = (v, c', [])"
  using assms
  by (auto simp: searchTrainsAI_def searchTrainsAI_begin_def searchTrainsAI_resume_def
      searchTrainsAI_try_def Let_def split: option.splits sum.splits)

text \<open>A call that has issued its request and whose response parses stores the parsed
  value under its key in the cache it finds when it resumes, and returns it; the same
  query, started in the cache this leaves, is served from the entry.\<close>

lemma searchTrainsAI_stores:
  assumes "searchTrainsAI_begin c0 from to = Await req k"
    and "parse (text_or text ''[]'') = Some v"
  shows "searchTrainsAI_resume parse c k (Fulfilled text) = (v, c\<lparr>search := (search c)(k \<mapsto> v)\<rparr>)
    \<and> searchTrainsAI parse (c\<lparr>search := (search c)(k \<mapsto> v)\<rparr>) from to r2
        = (v, c\<lparr>search := (search c)(k \<mapsto> v)\<rparr>, [])"
  using assms
  by (auto simp: searchTrainsAI_def searchTrainsAI_begin_def searchTrainsAI_resume_def
      searchTrainsAI_try_def await_response_def JSON_parse_def Let_def split: option.splits)

lemma getLiveStatusAI_stores:
  assumes "getLiveStatusAI_begin c0 trainNumber = Await req k"
    and "parse (text_or text ''null'') = Some v"
  shows "getLiveStatusAI_resume parse c k (Fulfilled text) = (v, c\<lparr>status := (status c)(k \<mapsto> v)\<rparr>)
    \<and> getLiveStatusAI parse (c\<lparr>status := (status c)(k \<mapsto> v)\<rparr>) trainNumber r2
        = (v, c\<lparr>status := (status c)(k \<mapsto> v)\<rparr>, [])"
  using assms
  by (auto simp: getLiveStatusAI_def getLiveStatusAI_begin_def getLiveStatusAI_resume_def
      getLiveStatusAI_try_def await_response_def JSON_parse_def split: option.splits)

lemma getTrainScheduleAI_stores:
  assumes "getTrainScheduleAI_begin c0 trainNumber = Await req k"
    and "parse (text_or text ''null'') = Some v"
  shows "getTrainScheduleAI_resume parse c k (Fulfilled text)
        = (v, c\<lparr>schedules := (schedules c)(k \<mapsto> v)\<rparr>)
    \<and> getTrainScheduleAI parse (c\<lparr>schedules := (schedules c)(k \<mapsto> v)\<rparr>) trainNumber r2
        = (v, c\<lparr>schedules := (schedules c)(k \<mapsto> v)\<rparr>, [])"
  using assms
  by (auto simp: getTrainScheduleAI_def getTrainScheduleAI_begin_def getTrainScheduleAI_resume_def
      getTrainScheduleAI_try_def await_response_def JSON_parse_def split: option.splits)

lemma getCoachPositionAI_stores:
  assumes "getCoachPositionAI_begin c0 trainNumber = Await req k"
    and "parse (text_or text ''null'') = Some v"
  shows "getCoachPositionAI_resume parse c k (Fulfilled text)
        = (v, c\<lparr>coaches := (coaches c)(k \<mapsto> v)\<rparr>)
    \<and> getCoachPositionAI parse (c\<lparr>coaches := (coaches c)(k \<mapsto> v)\<rparr>) trainNumber r2
        = (v, c\<lparr>coaches := (coaches c)(k \<mapsto> v)\<rparr>, [])"
  using assms
  by (auto simp: getCoachPositionAI_def getCoachPositionAI_begin_def getCoachPositionAI_resume_def
      getCoachPositionAI_try_def await_response_def JSON_parse_def split: option.splits)

lemma getStationSuggestionsAI_stores:
  assumes "getStationSuggestionsAI_begin c0 query = Await req k"
    and "parse (text_or text ''[]'') = Some v"
  shows "getStationSuggestionsAI_resume parse c k (Fulfilled text)
        = (v, c\<lparr>suggestions := (suggestions c)(k \<mapsto> v)\<rparr>)
    \<and> getStationSuggestionsAI parse (c\<lparr>suggestions := (suggestions c)(k \<mapsto> v)\<rparr>) query r2
        = (or_else v (JArr []), c\<lparr>suggestions := (suggestions c)(k \<mapsto> v)\<rparr>, [])"
  using assms
  by (auto simp: getStationSuggestionsAI_def getStationSuggestionsAI_begin_def
      getStationSuggestionsAI_resume_def getStationSuggestionsAI_try_def await_response_def
      JSON_parse_def Let_def split: option.splits if_splits)

text \<open>When a call returns, leaves its entry and no other call with its key is still
  waiting, every later call with that key is served from the entry, whatever calls and
  responses come in between.\<close>

lemma returned_entry_serves:
  assumes "i < length (waiting p)"
    and "waiting p ! i \<notin> set (take i (waiting p) @ drop (Suc i) (waiting p))"
    and "entry (store (step parse p (Settle i r))) (waiting p ! i) = Some v"
    and "slot_of cl = waiting p ! i"
  shows "invoke (store (run parse (step parse p (Settle i r)) acts)) cl =
     Done (case cl of
             GetStationSuggestions query \<Rightarrow>
               if length query < 2 then JArr [] else or_else v (JArr [])
           | _ \<Rightarrow> v)"
proof -
  from assms(1,2) have "waiting p ! i \<notin> set (waiting (step parse p (Settle i r)))"
    by (simp add: step_Settle_waiting del: step.simps)
  from run_settled_entry [OF assms(3) this, of parse acts]
  have "entry (store (run parse (step parse p (Settle i r)) acts)) (slot_of cl) = Some v"
    using assms(4) by simp
  then show ?thesis by (rule invoke_hit)
qed

text \<open>The same in a process. When the response of a waiting call parses, the call
  returns the parsed value; if no other call with its key is still waiting, every later
  call with the same query is served the value, whatever calls and responses come in
  between.\<close>

lemma resume_stores:
  "parse (text_or text ''[]'') = Some v \<Longrightarrow>
     searchTrainsAI_resume parse c k (Fulfilled text) = (v, c\<lparr>search := (search c)(k \<mapsto> v)\<rparr>)"
  "parse (text_or text ''null'') = Some v \<Longrightarrow>
     getLiveStatusAI_resume parse c k (Fulfilled text) = (v, c\<lparr>status := (status c)(k \<mapsto> v)\<rparr>)"
  "parse (text_or text ''null'') = Some v \<Longrightarrow>
     getTrainScheduleAI_resume parse c k (Fulfilled text)
       = (v, c\<lparr>schedules := (schedules c)(k \<mapsto> v)\<rparr>)"
  "parse (text_or text ''null'') = Some v \<Longrightarrow>
     getCoachPositionAI_resume parse c k (Fulfilled text)
       = (v, c\<lparr>coaches := (coaches c)(k \<mapsto> v)\<rparr>)"
  "parse (text_or text ''[]'') = Some v \<Longrightarrow>
     getStationSuggestionsAI_resume parse c k (Fulfilled text)
       = (v, c\<lparr>suggestions := (suggestions c)(k \<mapsto> v)\<rparr>)"
  by (simp_all add: searchTrainsAI_resume_def searchTrainsAI_try_def getLiveStatusAI_resume_def
      getLiveStatusAI_try_def getTrainScheduleAI_resume_def getTrainScheduleAI_try_def
      getCoachPositionAI_resume_def getCoachPositionAI_try_def getStationSuggestionsAI_resume_def
      getStationSuggestionsAI_try_def await_response_def JSON_parse_def)

lemma step_Settle_returned:
  "i < length (waiting p) \<Longrightarrow>
   returned (step parse p (Settle i r)) = returned p @ [fst (settle parse (store p) (waiting p ! i) r)]"
  by (simp split: prod.splits)

lemma searchTrainsAI_settled_serves:
  assumes "searchTrainsAI_begin c0 from to = Await req k"
    and "i < length (waiting p)"
    and "waiting p ! i = InSearch k"
    and "InSearch k \<notin> set (take i (waiting p) @ drop (Suc i) (waiting p))"
    and "parse (text_or text ''[]'') = Some v"
  shows "returned (step parse p (Settle i (Fulfilled text))) = returned p @ [v]
    \<and> invoke (store (run parse (step parse p (Settle i (Fulfilled text))) acts))
        (SearchTrains from to) = Done v"
proof -
  from assms(2,3,5)
  have r: "returned (step parse p (Settle i (Fulfilled text))) = returned p @ [v]"
    by (simp add: step_Settle_returned resume_stores del: step.simps)
  from assms(2,3,5)
  have e: "entry (store (step parse p (Settle i (Fulfilled text)))) (waiting p ! i) = Some v"
    by (simp add: step_Settle_store resume_stores del: step.simps)
  from assms(1,3) have s: "slot_of (SearchTrains from to) = waiting p ! i"
    by (auto simp: searchTrainsAI_begin_def Let_def split: option.splits)
  from assms(3,4)
  have w: "waiting p ! i \<notin> set (take i (waiting p) @ drop (Suc i) (waiting p))"
    by simp
  from assms(1) returned_entry_serves [OF assms(2) w e s, of acts] r show ?thesis
    by (auto simp: searchTrainsAI_begin_def Let_def split: option.splits if_splits)
qed

lemma getLiveStatusAI_settled_serves:
  assumes "getLiveStatusAI_begin c0 trainNumber = Await req k"
    and "i < length (waiting p)"
    and "waiting p ! i = InStatus k"
    and "InStatus k \<notin> set (take i (waiting p) @ drop (Suc i) (waiting p))"
    and "parse (text_or text ''null'') = Some v"
  shows "returned (step parse p (Settle i (Fulfilled text))) = returned p @ [v]
    \<and> invoke (store (run parse (step parse p (Settle i (Fulfilled text))) acts))
        (GetLiveStatus trainNumber) = Done v"
proof -
  from assms(2,3,5)
  have r: "returned (step parse p (Settle i (Fulfilled text))) = returned p @ [v]"
    by (simp add: step_Settle_returned resume_stores del: step.simps)
  from assms(2,3,5)
  have e: "entry (store (step parse p (Settle i (Fulfilled text)))) (waiting p ! i) = Some v"
    by (simp add: step_Settle_store resume_stores del: step.simps)
  from assms(1,3) have s: "slot_of (GetLiveStatus trainNumber) = waiting p ! i"
    by (auto simp: getLiveStatusAI_begin_def split: option.splits)
  from assms(3,4)
  have w: "waiting p ! i \<notin> set (take i (waiting p) @ drop (Suc i) (waiting p))"
    by simp
  from assms(1) returned_entry_serves [OF assms(2) w e s, of acts] r show ?thesis
    by (auto simp: getLiveStatusAI_begin_def split: option.splits if_splits)
qed

lemma getTrainScheduleAI_settled_serves:
  assumes "getTrainScheduleAI_begin c0 trainNumber = Await req k"
    and "i < length (waiting p)"
    and "waiting p ! i = InSchedule k"
    and "InSchedule k \<notin> set (take i (waiting p) @ drop (Suc i) (waiting p))"
    and "parse (text_or text ''null'') = Some v"
  shows "returned (step parse p (Settle i (Fulfilled text))) = returned p @ [v]
    \<and> invoke (store (run parse (step parse p (Settle i (Fulfilled text))) acts))
        (GetTrainSchedule trainNumber) = Done v"
proof -
  from assms(2,3,5)
  have r: "returned (step parse p (Settle i (Fulfilled text))) = returned p @ [v]"
    by (simp add: step_Settle_returned resume_stores del: step.simps)
  from assms(2,3,5)
  have e: "entry (store (step parse p (Settle i (Fulfilled text)))) (waiting p ! i) = Some v"
    by (simp add: step_Settle_store resume_stores del: step.simps)
  from assms(1,3) have s: "slot_of (GetTrainSchedule trainNumber) = waiting p ! i"
    by (auto simp: getTrainScheduleAI_begin_def split: option.splits)
  from assms(3,4)
  have w: "waiting p ! i \<notin> set (take i (waiting p) @ drop (Suc i) (waiting p))"
    by simp
  from assms(1) returned_entry_serves [OF assms(2) w e s, of acts] r show ?thesis
    by (auto simp: getTrainScheduleAI_begin_def split: option.splits if_splits)
qed

lemma getCoachPositionAI_settled_serves:
  assumes "getCoachPositionAI_begin c0 trainNumber = Await req k"
    and "i < length (waiting p)"
    and "waiting p ! i = InCoach k"
    and "InCoach k \<notin> set (take i (waiting p) @ drop (Suc i) (waiting p))"
    and "parse (text_or text ''null'') = Some v"
  shows "returned (step parse p (Settle i (Fulfilled text))) = returned p @ [v]
    \<and> invoke (store (run parse (step parse p (Settle i (Fulfilled text))) acts))
        (GetCoachPosition trainNumber) = Done v"
proof -
  from assms(2,3,5)
  have r: "returned (step parse p (Settle i (Fulfilled text))) = returned p @ [v]"
    by (simp add: step_Settle_returned resume_stores del: step.simps)
  from assms(2,3,5)
  have e: "entry (store (step parse p (Settle i (Fulfilled text)))) (waiting p ! i) = Some v"
    by (simp add: step_Settle_store resume_stores del: step.simps)
  from assms(1,3) have s: "slot_of (GetCoachPosition trainNumber) = waiting p ! i"
    by (auto simp: getCoachPositionAI_begin_def split: option.splits)
  from assms(3,4)
  have w: "waiting p ! i \<notin> set (take i (waiting p) @ drop (Suc i) (waiting p))"
    by simp
  from assms(1) returned_entry_serves [OF assms(2) w e s, of acts] r show ?thesis
    by (auto simp: getCoachPositionAI_begin_def split: option.splits if_splits)
qed

lemma getStationSuggestionsAI_settled_serves:
  assumes "getStationSuggestionsAI_begin c0 query = Await req k"
    and "i < length (waiting p)"
    and "waiting p ! i = InSuggestions k"
    and "InSuggestions k \<notin> set (take i (waiting p) @ drop (Suc i) (waiting p))"
    and "parse (text_or text ''[]'') = Some v"
  shows "returned (step parse p (Settle i (Fulfilled text))) = returned p @ [v]
    \<and> invoke (store (run parse (step parse p (Settle i (Fulfilled text))) acts))
        (GetStationSuggestions query) = Done (or_else v (JArr []))"
proof -
  from assms(2,3,5)
  have r: "returned (step parse p (Settle i (Fulfilled text))) = returned p @ [v]"
    by (simp add: step_Settle_returned resume_stores del: step.simps)
  from assms(2,3,5)
  have e: "entry (store (step parse p (Settle i (Fulfilled text)))) (waiting p ! i) = Some v"
    by (simp add: step_Settle_store resume_stores del: step.simps)
  from assms(1,3) have s: "slot_of (GetStationSuggestions query) = waiting p ! i"
    by (auto simp: getStationSuggestionsAI_begin_def Let_def split: option.splits if_splits)
  from assms(3,4)
  have w: "waiting p ! i \<notin> set (take i (waiting p) @ drop (Suc i) (waiting p))"
    by simp
  from assms(1) returned_entry_serves [OF assms(2) w e s, of acts] r show ?thesis
    by (auto simp: getStationSuggestionsAI_begin_def Let_def split: option.splits if_splits)
qed

text \<open>C3 fails for the adapters without a cache, and for a cached adapter when the two
  calls overlap, when the first call fails, and when the stored suggestions are falsy.
  Two calls of getRecentAlertsAI on the same cache, the second in the cache the first
  leaves, return what their own responses hold, and each sends its request. A second
  call of getCoachPositionAI for the same train that starts while the first is still
  waiting for its response misses the cache and returns its own response, not the result
  of the first. A getTrainScheduleAI call that is rejected returns null and caches
  nothing, so the second call sends its own request and returns its own response. A
  getStationSuggestionsAI call that parsed and stored \<^verbatim>\<open>null\<close> returned
  \<^verbatim>\<open>null\<close>; the second call returns an empty array.\<close>

theorem second_call_counterexample:
  "getRecentAlertsAI sample_parse empty_cache (Fulfilled (Some ''[1]''))
     = (JArr [JNum 1], empty_cache, [\<lparr>model = ''gemini-3-flash-preview'',
            contents = ''Generate 4 realistic current Indian railway alerts (delays, platform changes, or weather impacts).'',
            thinkingBudget = 0\<rparr>])
   \<and> getRecentAlertsAI sample_parse empty_cache (Fulfilled (Some ''{}''))
     = (JObj [], empty_cache, [\<lparr>model = ''gemini-3-flash-preview'',
            contents = ''Generate 4 realistic current Indian railway alerts (delays, platform changes, or weather impacts).'',
            thinkingBudget = 0\<rparr>])
   \<and> returned (run sample_parse fresh_process
        [Call (GetCoachPosition ''12951''), Call (GetCoachPosition ''12951''),
         Settle 0 (Fulfilled (Some ''{}'')), Settle 0 (Fulfilled (Some ''[1]''))])
     = [JObj [], JArr [JNum 1]]
   \<and> returned (run sample_parse fresh_process
        [Call (GetTrainSchedule ''22436''), Settle 0 Rejected,
         Call (GetTrainSchedule ''22436''), Settle 0 (Fulfilled (Some ''{}''))])
     = [JNull, JObj []]
   \<and> returned (run sample_parse fresh_process
        [Call (GetStationSuggestions ''ag''), Settle 0 (Fulfilled (Some ''null'')),
         Call (GetStationSuggestions ''ag'')])
     = [JNull, JArr []]"
  by (simp add: eval_defs lower_evals)

text \<open>C3, amended. For each of the five cached adapters (searchTrainsAI,
  getLiveStatusAI, getTrainScheduleAI, getCoachPositionAI, getStationSuggestionsAI): when
  the external call and the parse of a call succeed, the call stores the parsed value
  under its key and returns it, and a call with the identical query that starts in the
  cache the first call leaves sends no request and returns that value,
  getStationSuggestionsAI returning an empty array in place of a falsy value. When no
  other call with the same key is still waiting for its response as the first call
  returns, every later call with the identical query is served the stored value in the
  same way, under any interleaving of calls and responses. getRecentAlertsAI and
  getRailAssistantResponseStream keep no cache: every call sends a request, and
  getRecentAlertsAI returns what its own response gives.\<close>

theorem second_call_served_from_cache:
  "(searchTrainsAI_begin c0 from to = Await req k
        \<and> parse (text_or text ''[]'') = Some v \<longrightarrow>
      searchTrainsAI_resume parse c k (Fulfilled text)
          = (v, c\<lparr>search := (search c)(k \<mapsto> v)\<rparr>)
      \<and> searchTrainsAI parse (c\<lparr>search := (search c)(k \<mapsto> v)\<rparr>) from to r2
          = (v, c\<lparr>search := (search c)(k \<mapsto> v)\<rparr>, []))
   \<and> (getLiveStatusAI_begin c0 trainNumber = Await req k
        \<and> parse (text_or text ''null'') = Some v \<longrightarrow>
      getLiveStatusAI_resume parse c k (Fulfilled text)
          = (v, c\<lparr>status := (status c)(k \<mapsto> v)\<rparr>)
      \<and> getLiveStatusAI parse (c\<lparr>status := (status c)(k \<mapsto> v)\<rparr>) trainNumber r2
          = (v, c\<lparr>status := (status c)(k \<mapsto> v)\<rparr>, []))
   \<and> (getTrainScheduleAI_begin c0 trainNumber = Await req k
        \<and> parse (text_or text ''null'') = Some v \<longrightarrow>
      getTrainScheduleAI_resume parse c k (Fulfilled text)
          = (v, c\<lparr>schedules := (schedules c)(k \<mapsto> v)\<rparr>)
      \<and> getTrainScheduleAI parse (c\<lparr>schedules := (schedules c)(k \<mapsto> v)\<rparr>) trainNumber r2
          = (v, c\<lparr>schedules := (schedules c)(k \<mapsto> v)\<rparr>, []))
   \<and> (getCoachPositionAI_begin c0 trainNumber = Await req k
        \<and> parse (text_or text ''null'') = Some v \<longrightarrow>
      getCoachPositionAI_resume parse c k (Fulfilled text)
          = (v, c\<lparr>coaches := (coaches c)(k \<mapsto> v)\<rparr>)
      \<and> getCoachPositionAI parse (c\<lparr>coaches := (coaches c)(k \<mapsto> v)\<rparr>) trainNumber r2
          = (v, c\<lparr>coaches := (coaches c)(k \<mapsto> v)\<rparr>, []))
   \<and> (getStationSuggestionsAI_begin c0 query = Await req k
        \<and> parse (text_or text ''[]'') = Some v \<longrightarrow>
      getStationSuggestionsAI_resume parse c k (Fulfilled text)
          = (v, c\<lparr>suggestions := (suggestions c)(k \<mapsto> v)\<rparr>)
      \<and> getStationSuggestionsAI parse (c\<lparr>suggestions := (suggestions c)(k \<mapsto> v)\<rparr>) query r2
          = (or_else v (JArr []), c\<lparr>suggestions := (suggestions c)(k \<mapsto> v)\<rparr>, []))
   \<and> (searchTrainsAI_begin c0 from to = Await req k
        \<and> i < length (waiting p) \<and> waiting p ! i = InSearch k
        \<and> InSearch k \<notin> set (take i (waiting p) @ drop (Suc i) (waiting p))
        \<and> parse (text_or text ''[]'') = Some v \<longrightarrow>
      returned (step parse p (Settle i (Fulfilled text))) = returned p @ [v]
      \<and> invoke (store (run parse (step parse p (Settle i (Fulfilled text))) acts))
          (SearchTrains from to) = Done v)
   \<and> (getLiveStatusAI_begin c0 trainNumber = Await req k
        \<and> i < length (waiting p) \<and> waiting p ! i = InStatus k
        \<and> InStatus k \<notin> set (take i (waiting p) @ drop (Suc i) (waiting p))
        \<and> parse (text_or text ''null'') = Some v \<longrightarrow>
      returned (step parse p (Settle i (Fulfilled text))) = returned p @ [v]
      \<and> invoke (store (run parse (step parse p (Settle i (Fulfilled text))) acts))
          (GetLiveStatus trainNumber) = Done v)
   \<and> (getTrainScheduleAI_begin c0 trainNumber = Await req k
        \<and> i < length (waiting p) \<and> waiting p ! i = InSchedule k
        \<and> InSchedule k \<notin> set (take i (waiting p) @ drop (Suc i) (waiting p))
        \<and> parse (text_or text ''null'') = Some v \<longrightarrow>
      returned (step parse p (Settle i (Fulfilled text))) = returned p @ [v]
      \<and> invoke (store (run parse (step parse p (Settle i (Fulfilled text))) acts))
          (GetTrainSchedule trainNumber) = Done v)
   \<and> (getCoachPositionAI_begin c0 trainNumber = Await req k
        \<and> i < length (waiting p) \<and> waiting p ! i = InCoach k
        \<and> InCoach k \<notin> set (take i (waiting p) @ drop (Suc i) (waiting p))
        \<and> parse (text_or text ''null'') = Some v \<longrightarrow>
      returned (step parse p (Settle i (Fulfilled text))) = returned p @ [v]
      \<and> invoke (store (run parse (step parse p (Settle i (Fulfilled text))) acts))
          (GetCoachPosition trainNumber) = Done v)
   \<and> (getStationSuggestionsAI_begin c0 query = Await req k
        \<and> i < length (waiting p) \<and> waiting p ! i = InSuggestions k
        \<and> InSuggestions k \<notin> set (take i (waiting p) @ drop (Suc i) (waiting p))
        \<and> parse (text_or text ''[]'') = Some v \<longrightarrow>
      returned (step parse p (Settle i (Fulfilled text))) = returned p @ [v]
      \<and> invoke (store (run parse (step parse p (Settle i (Fulfilled text))) acts))
          (GetStationSuggestions query) = Done (or_else v (JArr [])))
   \<and> (\<exists>req. getRecentAlertsAI parse c r = (getRecentAlertsAI_resume parse r, c, [req]))
   \<and> (\<exists>req. snd (snd (getRailAssistantResponseStream q sr)) = [req])"
proof -
  have c1: "searchTrainsAI_begin c0 from to = Await req k
        \<and> parse (text_or text ''[]'') = Some v \<longrightarrow>
      searchTrainsAI_resume parse c k (Fulfilled text)
          = (v, c\<lparr>search := (search c)(k \<mapsto> v)\<rparr>)
      \<and> searchTrainsAI parse (c\<lparr>search := (search c)(k \<mapsto> v)\<rparr>) from to r2
          = (v, c\<lparr>search := (search c)(k \<mapsto> v)\<rparr>, [])"
    using searchTrainsAI_stores [of c0 "from" to req k parse "text" v c r2]
    by blast
  have c2: "getLiveStatusAI_begin c0 trainNumber = Await req k
        \<and> parse (text_or text ''null'') = Some v \<longrightarrow>
      getLiveStatusAI_resume parse c k (Fulfilled text)
          = (v, c\<lparr>status := (status c)(k \<mapsto> v)\<rparr>)
      \<and> getLiveStatusAI parse (c\<lparr>status := (status c)(k \<mapsto> v)\<rparr>) trainNumber r2
          = (v, c\<lparr>status := (status c)(k \<mapsto> v)\<rparr>, [])"
    using getLiveStatusAI_stores [of c0 trainNumber req k parse "text" v c r2]
    by blast
  have c3: "getTrainScheduleAI_begin c0 trainNumber = Await req k
        \<and> parse (text_or text ''null'') = Some v \<longrightarrow>
      getTrainScheduleAI_resume parse c k (Fulfilled text)
          = (v, c\<lparr>schedules := (schedules c)(k \<mapsto> v)\<rparr>)
      \<and> getTrainScheduleAI parse (c\<lparr>schedules := (schedules c)(k \<mapsto> v)\<rparr>) trainNumber r2
          = (v, c\<lparr>schedules := (schedules c)(k \<mapsto> v)\<rparr>, [])"
    using getTrainScheduleAI_stores [of c0 trainNumber req k parse "text" v c r2]
    by blast
  have c4: "getCoachPositionAI_begin c0 trainNumber = Await req k
        \<and> parse (text_or text ''null'') = Some v \<longrightarrow>
      getCoachPositionAI_resume parse c k (Fulfilled text)
          = (v, c\<lparr>coaches := (coaches c)(k \<mapsto> v)\<rparr>)
      \<and> getCoachPositionAI parse (c\<lparr>coaches := (coaches c)(k \<mapsto> v)\<rparr>) trainNumber r2
          = (v, c\<lparr>coaches := (coaches c)(k \<mapsto> v)\<rparr>, [])"
    using getCoachPositionAI_stores [of c0 trainNumber req k parse "text" v c r2]
    by blast
  have c5: "getStationSuggestionsAI_begin c0 query = Await req k
        \<and> parse (text_or text ''[]'') = Some v \<longrightarrow>
      getStationSuggestionsAI_resume parse c k (Fulfilled text)
          = (v, c\<lparr>suggestions := (suggestions c)(k \<mapsto> v)\<rparr>)
      \<and> getStationSuggestionsAI parse (c\<lparr>suggestions := (suggestions c)(k \<mapsto> v)\<rparr>) query r2
          = (or_else v (JArr []), c\<lparr>suggestions := (suggestions c)(k \<mapsto> v)\<rparr>, [])"
    using getStationSuggestionsAI_stores [of c0 query req k parse "text" v c r2]
    by blast
  have c6: "searchTrainsAI_begin c0 from to = Await req k
        \<and> i < length (waiting p) \<and> waiting p ! i = InSearch k
        \<and> InSearch k \<notin> set (take i (waiting p) @ drop (Suc i) (waiting p))
        \<and> parse (text_or text ''[]'') = Some v \<longrightarrow>
      returned (step parse p (Settle i (Fulfilled text))) = returned p @ [v]
      \<and> invoke (store (run parse (step parse p (Settle i (Fulfilled text))) acts))
          (SearchTrains from to) = Done v"
    using searchTrainsAI_settled_serves [of c0 "from" to req k i p parse "text" v acts]
    by blast
  have c7: "getLiveStatusAI_begin c0 trainNumber = Await req k
        \<and> i < length (waiting p) \<and> waiting p ! i = InStatus k
        \<and> InStatus k \<notin> set (take i (waiting p) @ drop (Suc i) (waiting p))
        \<and> parse (text_or text ''null'') = Some v \<longrightarrow>
      returned (step parse p (Settle i (Fulfilled text))) = returned p @ [v]
      \<and> invoke (store (run parse (step parse p (Settle i (Fulfilled text))) acts))
          (GetLiveStatus trainNumber) = Done v"
    using getLiveStatusAI_settled_serves [of c0 trainNumber req k i p parse "text" v acts]
    by blast
  have c8: "getTrainScheduleAI_begin c0 trainNumber = Await req k
        \<and> i < length (waiting p) \<and> waiting p ! i = InSchedule k
        \<and> InSchedule k \<notin> set (take i (waiting p) @ drop (Suc i) (waiting p))
        \<and> parse (text_or text ''null'') = Some v \<longrightarrow>
      returned (step parse p (Settle i (Fulfilled text))) = returned p @ [v]
      \<and> invoke (store (run parse (step parse p (Settle i (Fulfilled text))) acts))
          (GetTrainSchedule trainNumber) = Done v"
    using getTrainScheduleAI_settled_serves [of c0 trainNumber req k i p parse "text" v acts]
    by blast
  have c9: "getCoachPositionAI_begin c0 trainNumber = Await req k
        \<and> i < length (waiting p) \<and> waiting p ! i = InCoach k
        \<and> InCoach k \<notin> set (take i (waiting p) @ drop (Suc i) (waiting p))
        \<and> parse (text_or text ''null'') = Some v \<longrightarrow>
      returned (step parse p (Settle i (Fulfilled text))) = returned p @ [v]
      \<and> invoke (store (run parse (step parse p (Settle i (Fulfilled text))) acts))
          (GetCoachPosition trainNumber) = Done v"
    using getCoachPositionAI_settled_serves [of c0 trainNumber req k i p parse "text" v acts]
    by blast
  have c10: "getStationSuggestionsAI_begin c0 query = Await req k
        \<and> i < length (waiting p) \<and> waiting p ! i = InSuggestions k
        \<and> InSuggestions k \<notin> set (take i (waiting p) @ drop (Suc i) (waiting p))
        \<and> parse (text_or text ''[]'') = Some v \<longrightarrow>
      returned (step parse p (Settle i (Fulfilled text))) = returned p @ [v]
      \<and> invoke (store (run parse (step parse p (Settle i (Fulfilled text))) acts))
          (GetStationSuggestions query) = Done (or_else v (JArr []))"
    using getStationSuggestionsAI_settled_serves [of c0 query req k i p parse "text" v acts]
    by blast
  have alerts: "\<exists>req. getRecentAlertsAI parse c r = (getRecentAlertsAI_resume parse r, c, [req])"
    by (simp add: getRecentAlertsAI_def getRecentAlertsAI_begin_def)
  have stream: "\<exists>req. snd (snd (getRailAssistantResponseStream q sr)) = [req]"
    by (simp add: getRailAssistantResponseStream_def split: prod.splits sum.splits)
  from c1 c2 c3 c4 c5 c6 c7 c8 c9 c10 alerts stream show ?thesis
    by (intro conjI)
qed

text \<open>C3 amended, at concrete inputs. Each cached adapter misses on the empty cache,
  its response parses, the parsed value is stored and returned, and the same query is
  then served from the entry; the suggestions adapter stores \<^verbatim>\<open>null\<close> and serves an
  empty array. In a process where the call returns while only a call with another key is
  waiting, the same query is still served the entry after a further call and the
  rejection of the other call.\<close>

theorem second_call_served_from_cache_witness:
  "searchTrainsAI_begin empty_cache ''Delhi'' ''Agra''
      = Await \<lparr>model = ''gemini-3-pro-preview'', contents = ''Trains from Delhi to Agra.'',
               thinkingBudget = 32768\<rparr> ''delhi-agra''
   \<and> sample_parse (text_or (Some ''[1]'') ''[]'') = Some (JArr [JNum 1])
   \<and> searchTrainsAI_resume sample_parse empty_cache ''delhi-agra'' (Fulfilled (Some ''[1]''))
      = (JArr [JNum 1], empty_cache\<lparr>search := (search empty_cache)(''delhi-agra'' \<mapsto> JArr [JNum 1])\<rparr>)
   \<and> searchTrainsAI sample_parse
        (empty_cache\<lparr>search := (search empty_cache)(''delhi-agra'' \<mapsto> JArr [JNum 1])\<rparr>)
        ''Delhi'' ''Agra'' Rejected
      = (JArr [JNum 1], empty_cache\<lparr>search := (search empty_cache)(''delhi-agra'' \<mapsto> JArr [JNum 1])\<rparr>, [])
   \<and> waiting (run sample_parse fresh_process
          [Call (SearchTrains ''Delhi'' ''Agra''), Call (SearchTrains ''agra'' ''delhi'')])
      = [InSearch ''delhi-agra'', InSearch ''agra-delhi'']
   \<and> returned (step sample_parse
        (run sample_parse fresh_process
          [Call (SearchTrains ''Delhi'' ''Agra''), Call (SearchTrains ''agra'' ''delhi'')])
        (Settle 0 (Fulfilled (Some ''[1]''))))
      = [JArr [JNum 1]]
   \<and> invoke (store (run sample_parse
        (step sample_parse
          (run sample_parse fresh_process
          [Call (SearchTrains ''Delhi'' ''Agra''), Call (SearchTrains ''agra'' ''delhi'')])
          (Settle 0 (Fulfilled (Some ''[1]''))))
        [Call (SearchTrains ''Delhi'' ''Agra''), Settle 0 Rejected]))
      (SearchTrains ''Delhi'' ''Agra'') = Done (JArr [JNum 1])
   \<and> getLiveStatusAI_begin empty_cache ''12951''
      = Await \<lparr>model = ''gemini-3-pro-preview'', contents = ''Live status for 12951.'',
               thinkingBudget = 32768\<rparr> ''12951''
   \<and> sample_parse (text_or (Some ''{}'') ''null'') = Some (JObj [])
   \<and> getLiveStatusAI_resume sample_parse empty_cache ''12951'' (Fulfilled (Some ''{}''))
      = (JObj [], empty_cache\<lparr>status := (status empty_cache)(''12951'' \<mapsto> JObj [])\<rparr>)
   \<and> getLiveStatusAI sample_parse
        (empty_cache\<lparr>status := (status empty_cache)(''12951'' \<mapsto> JObj [])\<rparr>)
        ''12951'' Rejected
      = (JObj [], empty_cache\<lparr>status := (status empty_cache)(''12951'' \<mapsto> JObj [])\<rparr>, [])
   \<and> waiting (run sample_parse fresh_process
          [Call (GetLiveStatus ''12951''), Call (GetLiveStatus ''22436'')])
      = [InStatus ''12951'', InStatus ''22436'']
   \<and> returned (step sample_parse
        (run sample_parse fresh_process
          [Call (GetLiveStatus ''12951''), Call (GetLiveStatus ''22436'')])
        (Settle 0 (Fulfilled (Some ''{}''))))
      = [JObj []]
   \<and> invoke (store (run sample_parse
        (step sample_parse
          (run sample_parse fresh_process
          [Call (GetLiveStatus ''12951''), Call (GetLiveStatus ''22436'')])
          (Settle 0 (Fulfilled (Some ''{}''))))
        [Call (GetLiveStatus ''12951''), Settle 0 Rejected]))
      (GetLiveStatus ''12951'') = Done (JObj [])
   \<and> getTrainScheduleAI_begin empty_cache ''12951''
      = Await \<lparr>model = ''gemini-3-pro-preview'',
               contents = ''Provide full route schedule for train 12951. Include halt time (e.g. 5 min) and estimated platform number for each stop.'',
               thinkingBudget = 32768\<rparr> ''12951''
   \<and> sample_parse (text_or (Some ''[1]'') ''null'') = Some (JArr [JNum 1])
   \<and> getTrainScheduleAI_resume sample_parse empty_cache ''12951'' (Fulfilled (Some ''[1]''))
      = (JArr [JNum 1], empty_cache\<lparr>schedules := (schedules empty_cache)(''12951'' \<mapsto> JArr [JNum 1])\<rparr>)
   \<and> getTrainScheduleAI sample_parse
        (empty_cache\<lparr>schedules := (schedules empty_cache)(''12951'' \<mapsto> JArr [JNum 1])\<rparr>)
        ''12951'' Rejected
      = (JArr [JNum 1], empty_cache\<lparr>schedules := (schedules empty_cache)(''12951'' \<mapsto> JArr [JNum 1])\<rparr>, [])
   \<and> waiting (run sample_parse fresh_process
          [Call (GetTrainSchedule ''12951''), Call (GetTrainSchedule ''22436'')])
      = [InSchedule ''12951'', InSchedule ''22436'']
   \<and> returned (step sample_parse
        (run sample_parse fresh_process
          [Call (GetTrainSchedule ''12951''), Call (GetTrainSchedule ''22436'')])
        (Settle 0 (Fulfilled (Some ''[1]''))))
      = [JArr [JNum 1]]
   \<and> invoke (store (run sample_parse
        (step sample_parse
          (run sample_parse fresh_process
          [Call (GetTrainSchedule ''12951''), Call (GetTrainSchedule ''22436'')])
          (Settle 0 (Fulfilled (Some ''[1]''))))
        [Call (GetTrainSchedule ''12951''), Settle 0 Rejected]))
      (GetTrainSchedule ''12951'') = Done (JArr [JNum 1])
   \<and> getCoachPositionAI_begin empty_cache ''12951''
      = Await \<lparr>model = ''gemini-3-pro-preview'',
               contents = ''Provide the coach position sequence for train 12951 in India.'',
               thinkingBudget = 32768\<rparr> ''12951''
   \<and> sample_parse (text_or (None) ''null'') = Some (JNull)
   \<and> getCoachPositionAI_resume sample_parse empty_cache ''12951'' (Fulfilled (None))
      = (JNull, empty_cache\<lparr>coaches := (coaches empty_cache)(''12951'' \<mapsto> JNull)\<rparr>)
   \<and> getCoachPositionAI sample_parse
        (empty_cache\<lparr>coaches := (coaches empty_cache)(''12951'' \<mapsto> JNull)\<rparr>)
        ''12951'' Rejected
      = (JNull, empty_cache\<lparr>coaches := (coaches empty_cache)(''12951'' \<mapsto> JNull)\<rparr>, [])
   \<and> waiting (run sample_parse fresh_process
          [Call (GetCoachPosition ''12951''), Call (GetCoachPosition ''22436'')])
      = [InCoach ''12951'', InCoach ''22436'']
   \<and> returned (step sample_parse
        (run sample_parse fresh_process
          [Call (GetCoachPosition ''12951''), Call (GetCoachPosition ''22436'')])
        (Settle 0 (Fulfilled (None))))
      = [JNull]
   \<and> invoke (store (run sample_parse
        (step sample_parse
          (run sample_parse fresh_process
          [Call (GetCoachPosition ''12951''), Call (GetCoachPosition ''22436'')])
          (Settle 0 (Fulfilled (None))))
        [Call (GetCoachPosition ''12951''), Settle 0 Rejected]))
      (GetCoachPosition ''12951'') = Done (JNull)
   \<and> getStationSuggestionsAI_begin empty_cache ''De''
      = Await \<lparr>model = ''gemini-3-flash-preview'',
               contents = ''List 5 popular Indian railway stations matching ''
                 @ [CHR 0x22] @ ''De'' @ [CHR 0x22] @ ''.'',
               thinkingBudget = 0\<rparr> ''de''
   \<and> sample_parse (text_or (Some ''null'') ''[]'') = Some (JNull)
   \<and> getStationSuggestionsAI_resume sample_parse empty_cache ''de'' (Fulfilled (Some ''null''))
      = (JNull, empty_cache\<lparr>suggestions := (suggestions empty_cache)(''de'' \<mapsto> JNull)\<rparr>)
   \<and> getStationSuggestionsAI sample_parse
        (empty_cache\<lparr>suggestions := (suggestions empty_cache)(''de'' \<mapsto> JNull)\<rparr>)
        ''De'' Rejected
      = (JArr [], empty_cache\<lparr>suggestions := (suggestions empty_cache)(''de'' \<mapsto> JNull)\<rparr>, [])
   \<and> waiting (run sample_parse fresh_process
          [Call (GetStationSuggestions ''De''), Call (GetStationSuggestions ''ag'')])
      = [InSuggestions ''de'', InSuggestions ''ag'']
   \<and> returned (step sample_parse
        (run sample_parse fresh_process
          [Call (GetStationSuggestions ''De''), Call (GetStationSuggestions ''ag'')])
        (Settle 0 (Fulfilled (Some ''null''))))
      = [JNull]
   \<and> invoke (store (run sample_parse
        (step sample_parse
          (run sample_parse fresh_process
          [Call (GetStationSuggestions ''De''), Call (GetStationSuggestions ''ag'')])
          (Settle 0 (Fulfilled (Some ''null''))))
        [Call (GetStationSuggestions ''De''), Settle 0 Rejected]))
      (GetStationSuggestions ''De'') = Done (JArr [])"
proof -
  note t = second_call_served_from_cache
  have b1: "searchTrainsAI_begin empty_cache ''Delhi'' ''Agra''
      = Await \<lparr>model = ''gemini-3-pro-preview'', contents = ''Trains from Delhi to Agra.'',
               thinkingBudget = 32768\<rparr> ''delhi-agra''"
    by (simp add: searchTrainsAI_begin_def empty_cache_def lower_evals)
  have p1: "sample_parse (text_or (Some ''[1]'') ''[]'') = Some (JArr [JNum 1])"
    by (simp add: text_or_def sample_parse_def)
  note u1 = t [where parse = sample_parse and ?text = "Some ''[1]''" and c = empty_cache
      and ?r2.0 = Rejected,
      THEN conjunct1, rule_format, OF conjI, OF b1 p1]
  from u1 [THEN conjunct1]
  have r1: "searchTrainsAI_resume sample_parse empty_cache ''delhi-agra'' (Fulfilled (Some ''[1]''))
      = (JArr [JNum 1], empty_cache\<lparr>search := (search empty_cache)(''delhi-agra'' \<mapsto> JArr [JNum 1])\<rparr>)" .
  from u1 [THEN conjunct2]
  have a1: "searchTrainsAI sample_parse
        (empty_cache\<lparr>search := (search empty_cache)(''delhi-agra'' \<mapsto> JArr [JNum 1])\<rparr>)
        ''Delhi'' ''Agra'' Rejected
      = (JArr [JNum 1], empty_cache\<lparr>search := (search empty_cache)(''delhi-agra'' \<mapsto> JArr [JNum 1])\<rparr>, [])"
    by (simp add: or_else_def)
  define P1 where "P1 = run sample_parse fresh_process
          [Call (SearchTrains ''Delhi'' ''Agra''), Call (SearchTrains ''agra'' ''delhi'')]"
  have w1: "waiting P1 = [InSearch ''delhi-agra'', InSearch ''agra-delhi'']"
    by (simp add: P1_def eval_defs lower_evals)
  have e1: "returned P1 = []"
    by (simp add: P1_def eval_defs lower_evals)
  have h1a: "0 < length (waiting P1)"
    by (simp add: w1)
  have h1b: "waiting P1 ! 0 = InSearch ''delhi-agra''"
    by (simp add: w1)
  have h1c: "InSearch ''delhi-agra'' \<notin> set (take 0 (waiting P1) @ drop (Suc 0) (waiting P1))"
    by (simp add: w1)
  note x1 = t [where parse = sample_parse and ?text = "Some ''[1]''"
      and acts = "[Call (SearchTrains ''Delhi'' ''Agra''), Settle 0 Rejected]",
      THEN conjunct2, THEN conjunct2, THEN conjunct2, THEN conjunct2, THEN conjunct2, THEN conjunct1, rule_format,
      OF conjI, OF b1 conjI, OF h1a conjI, OF h1b conjI, OF h1c p1]
  from x1 [THEN conjunct1] e1
  have y1: "returned (step sample_parse P1 (Settle 0 (Fulfilled (Some ''[1]'')))) = [JArr [JNum 1]]"
    by simp
  from x1 [THEN conjunct2]
  have z1: "invoke (store (run sample_parse
        (step sample_parse P1 (Settle 0 (Fulfilled (Some ''[1]''))))
        [Call (SearchTrains ''Delhi'' ''Agra''), Settle 0 Rejected]))
      (SearchTrains ''Delhi'' ''Agra'') = Done (JArr [JNum 1])"
    by (simp add: or_else_def)
  have b2: "getLiveStatusAI_begin empty_cache ''12951''
      = Await \<lparr>model = ''gemini-3-pro-preview'', contents = ''Live status for 12951.'',
               thinkingBudget = 32768\<rparr> ''12951''"
    by (simp add: getLiveStatusAI_begin_def empty_cache_def)
  have p2: "sample_parse (text_or (Some ''{}'') ''null'') = Some (JObj [])"
    by (simp add: text_or_def sample_parse_def)
  note u2 = t [where parse = sample_parse and ?text = "Some ''{}''" and c = empty_cache
      and ?r2.0 = Rejected,
      THEN conjunct2, THEN conjunct1, rule_format, OF conjI, OF b2 p2]
  from u2 [THEN conjunct1]
  have r2: "getLiveStatusAI_resume sample_parse empty_cache ''12951'' (Fulfilled (Some ''{}''))
      = (JObj [], empty_cache\<lparr>status := (status empty_cache)(''12951'' \<mapsto> JObj [])\<rparr>)" .
  from u2 [THEN conjunct2]
  have a2: "getLiveStatusAI sample_parse
        (empty_cache\<lparr>status := (status empty_cache)(''12951'' \<mapsto> JObj [])\<rparr>)
        ''12951'' Rejected
      = (JObj [], empty_cache\<lparr>status := (status empty_cache)(''12951'' \<mapsto> JObj [])\<rparr>, [])"
    by (simp add: or_else_def)
  define P2 where "P2 = run sample_parse fresh_process
          [Call (GetLiveStatus ''12951''), Call (GetLiveStatus ''22436'')]"
  have w2: "waiting P2 = [InStatus ''12951'', InStatus ''22436'']"
    by (simp add: P2_def eval_defs)
  have e2: "returned P2 = []"
    by (simp add: P2_def eval_defs)
  have h2a: "0 < length (waiting P2)"
    by (simp add: w2)
  have h2b: "waiting P2 ! 0 = InStatus ''12951''"
    by (simp add: w2)
  have h2c: "InStatus ''12951'' \<notin> set (take 0 (waiting P2) @ drop (Suc 0) (waiting P2))"
    by (simp add: w2)
  note x2 = t [where parse = sample_parse and ?text = "Some ''{}''"
      and acts = "[Call (GetLiveStatus ''12951''), Settle 0 Rejected]",
      THEN conjunct2, THEN conjunct2, THEN conjunct2, THEN conjunct2, THEN conjunct2, THEN conjunct2, THEN conjunct1, rule_format,
      OF conjI, OF b2 conjI, OF h2a conjI, OF h2b conjI, OF h2c p2]
  from x2 [THEN conjunct1] e2
  have y2: "returned (step sample_parse P2 (Settle 0 (Fulfilled (Some ''{}'')))) = [JObj []]"
    by simp
  from x2 [THEN conjunct2]
  have z2: "invoke (store (run sample_parse
        (step sample_parse P2 (Settle 0 (Fulfilled (Some ''{}''))))
        [Call (GetLiveStatus ''12951''), Settle 0 Rejected]))
      (GetLiveStatus ''12951'') = Done (JObj [])"
    by (simp add: or_else_def)
  have b3: "getTrainScheduleAI_begin empty_cache ''12951''
      = Await \<lparr>model = ''gemini-3-pro-preview'',
               contents = ''Provide full route schedule for train 12951. Include halt time (e.g. 5 min) and estimated platform number for each stop.'',
               thinkingBudget = 32768\<rparr> ''12951''"
    by (simp add: getTrainScheduleAI_begin_def empty_cache_def)
  have p3: "sample_parse (text_or (Some ''[1]'') ''null'') = Some (JArr [JNum 1])"
    by (simp add: text_or_def sample_parse_def)
  note u3 = t [where parse = sample_parse and ?text = "Some ''[1]''" and c = empty_cache
      and ?r2.0 = Rejected,
      THEN conjunct2, THEN conjunct2, THEN conjunct1, rule_format, OF conjI, OF b3 p3]
  from u3 [THEN conjunct1]
  have r3: "getTrainScheduleAI_resume sample_parse empty_cache ''12951'' (Fulfilled (Some ''[1]''))
      = (JArr [JNum 1], empty_cache\<lparr>schedules := (schedules empty_cache)(''12951'' \<mapsto> JArr [JNum 1])\<rparr>)" .
  from u3 [THEN conjunct2]
  have a3: "getTrainScheduleAI sample_parse
        (empty_cache\<lparr>schedules := (schedules empty_cache)(''12951'' \<mapsto> JArr [JNum 1])\<rparr>)
        ''12951'' Rejected
      = (JArr [JNum 1], empty_cache\<lparr>schedules := (schedules empty_cache)(''12951'' \<mapsto> JArr [JNum 1])\<rparr>, [])"
    by (simp add: or_else_def)
  define P3 where "P3 = run sample_parse fresh_process
          [Call (GetTrainSchedule ''12951''), Call (GetTrainSchedule ''22436'')]"
  have w3: "waiting P3 = [InSchedule ''12951'', InSchedule ''22436'']"
    by (simp add: P3_def eval_defs)
  have e3: "returned P3 = []"
    by (simp add: P3_def eval_defs)
  have h3a: "0 < length (waiting P3)"
    by (simp add: w3)
  have h3b: "waiting P3 ! 0 = InSchedule ''12951''"
    by (simp add: w3)
  have h3c: "InSchedule ''12951'' \<notin> set (take 0 (waiting P3) @ drop (Suc 0) (waiting P3))"
    by (simp add: w3)
  note x3 = t [where parse = sample_parse and ?text = "Some ''[1]''"
      and acts = "[Call (GetTrainSchedule ''12951''), Settle 0 Rejected]",
      THEN conjunct2, THEN conjunct2, THEN conjunct2, THEN conjunct2, THEN conjunct2, THEN conjunct2, THEN conjunct2, THEN conjunct1, rule_format,
      OF conjI, OF b3 conjI, OF h3a conjI, OF h3b conjI, OF h3c p3]
  from x3 [THEN conjunct1] e3
  have y3: "returned (step sample_parse P3 (Settle 0 (Fulfilled (Some ''[1]'')))) = [JArr [JNum 1]]"
    by simp
  from x3 [THEN conjunct2]
  have z3: "invoke (store (run sample_parse
        (step sample_parse P3 (Settle 0 (Fulfilled (Some ''[1]''))))
        [Call (GetTrainSchedule ''12951''), Settle 0 Rejected]))
      (GetTrainSchedule ''12951'') = Done (JArr [JNum 1])"
    by (simp add: or_else_def)
  have b4: "getCoachPositionAI_begin empty_cache ''12951''
      = Await \<lparr>model = ''gemini-3-pro-preview'',
               contents = ''Provide the coach position sequence for train 12951 in India.'',
               thinkingBudget = 32768\<rparr> ''12951''"
    by (simp add: getCoachPositionAI_begin_def empty_cache_def)
  have p4: "sample_parse (text_or (None) ''null'') = Some (JNull)"
    by (simp add: text_or_def sample_parse_def)
  note u4 = t [where parse = sample_parse and ?text = "None" and c = empty_cache
      and ?r2.0 = Rejected,
      THEN conjunct2, THEN conjunct2, THEN conjunct2, THEN conjunct1, rule_format, OF conjI, OF b4 p4]
  from u4 [THEN conjunct1]
  have r4: "getCoachPositionAI_resume sample_parse empty_cache ''12951'' (Fulfilled (None))
      = (JNull, empty_cache\<lparr>coaches := (coaches empty_cache)(''12951'' \<mapsto> JNull)\<rparr>)" .
  from u4 [THEN conjunct2]
  have a4: "getCoachPositionAI sample_parse
        (empty_cache\<lparr>coaches := (coaches empty_cache)(''12951'' \<mapsto> JNull)\<rparr>)
        ''12951'' Rejected
      = (JNull, empty_cache\<lparr>coaches := (coaches empty_cache)(''12951'' \<mapsto> JNull)\<rparr>, [])"
    by (simp add: or_else_def)
  define P4 where "P4 = run sample_parse fresh_process
          [Call (GetCoachPosition ''12951''), Call (GetCoachPosition ''22436'')]"
  have w4: "waiting P4 = [InCoach ''12951'', InCoach ''22436'']"
    by (simp add: P4_def eval_defs)
  have e4: "returned P4 = []"
    by (simp add: P4_def eval_defs)
  have h4a: "0 < length (waiting P4)"
    by (simp add: w4)
  have h4b: "waiting P4 ! 0 = InCoach ''12951''"
    by (simp add: w4)
  have h4c: "InCoach ''12951'' \<notin> set (take 0 (waiting P4) @ drop (Suc 0) (waiting P4))"
    by (simp add: w4)
  note x4 = t [where parse = sample_parse and ?text = "None"
      and acts = "[Call (GetCoachPosition ''12951''), Settle 0 Rejected]",
      THEN conjunct2, THEN conjunct2, THEN conjunct2, THEN conjunct2, THEN conjunct2, THEN conjunct2, THEN conjunct2, THEN conjunct2, THEN conjunct1, rule_format,
      OF conjI, OF b4 conjI, OF h4a conjI, OF h4b conjI, OF h4c p4]
  from x4 [THEN conjunct1] e4
  have y4: "returned (step sample_parse P4 (Settle 0 (Fulfilled (None)))) = [JNull]"
    by simp
  from x4 [THEN conjunct2]
  have z4: "invoke (store (run sample_parse
        (step sample_parse P4 (Settle 0 (Fulfilled (None))))
        [Call (GetCoachPosition ''12951''), Settle 0 Rejected]))
      (GetCoachPosition ''12951'') = Done (JNull)"
    by (simp add: or_else_def)
  have b5: "getStationSuggestionsAI_begin empty_cache ''De''
      = Await \<lparr>model = ''gemini-3-flash-preview'',
               contents = ''List 5 popular Indian railway stations matching ''
                 @ [CHR 0x22] @ ''De'' @ [CHR 0x22] @ ''.'',
               thinkingBudget = 0\<rparr> ''de''"
    by (simp add: getStationSuggestionsAI_begin_def empty_cache_def lower_evals)
  have p5: "sample_parse (text_or (Some ''null'') ''[]'') = Some (JNull)"
    by (simp add: text_or_def sample_parse_def)
  note u5 = t [where parse = sample_parse and ?text = "Some ''null''" and c = empty_cache
      and ?r2.0 = Rejected,
      THEN conjunct2, THEN conjunct2, THEN conjunct2, THEN conjunct2, THEN conjunct1, rule_format, OF conjI, OF b5 p5]
  from u5 [THEN conjunct1]
  have r5: "getStationSuggestionsAI_resume sample_parse empty_cache ''de'' (Fulfilled (Some ''null''))
      = (JNull, empty_cache\<lparr>suggestions := (suggestions empty_cache)(''de'' \<mapsto> JNull)\<rparr>)" .
  from u5 [THEN conjunct2]
  have a5: "getStationSuggestionsAI sample_parse
        (empty_cache\<lparr>suggestions := (suggestions empty_cache)(''de'' \<mapsto> JNull)\<rparr>)
        ''De'' Rejected
      = (JArr [], empty_cache\<lparr>suggestions := (suggestions empty_cache)(''de'' \<mapsto> JNull)\<rparr>, [])"
    by (simp add: or_else_def)
  define P5 where "P5 = run sample_parse fresh_process
          [Call (GetStationSuggestions ''De''), Call (GetStationSuggestions ''ag'')]"
  have w5: "waiting P5 = [InSuggestions ''de'', InSuggestions ''ag'']"
    by (simp add: P5_def eval_defs lower_evals)
  have e5: "returned P5 = []"
    by (simp add: P5_def eval_defs lower_evals)
  have h5a: "0 < length (waiting P5)"
    by (simp add: w5)
  have h5b: "waiting P5 ! 0 = InSuggestions ''de''"
    by (simp add: w5)
  have h5c: "InSuggestions ''de'' \<notin> set (take 0 (waiting P5) @ drop (Suc 0) (waiting P5))"
    by (simp add: w5)
  note x5 = t [where parse = sample_parse and ?text = "Some ''null''"
      and acts = "[Call (GetStationSuggestions ''De''), Settle 0 Rejected]",
      THEN conjunct2, THEN conjunct2, THEN conjunct2, THEN conjunct2, THEN conjunct2, THEN conjunct2, THEN conjunct2, THEN conjunct2, THEN conjunct2, THEN conjunct1, rule_format,
      OF conjI, OF b5 conjI, OF h5a conjI, OF h5b conjI, OF h5c p5]
  from x5 [THEN conjunct1] e5
  have y5: "returned (step sample_parse P5 (Settle 0 (Fulfilled (Some ''null'')))) = [JNull]"
    by simp
  from x5 [THEN conjunct2]
  have z5: "invoke (store (run sample_parse
        (step sample_parse P5 (Settle 0 (Fulfilled (Some ''null''))))
        [Call (GetStationSuggestions ''De''), Settle 0 Rejected]))
      (GetStationSuggestions ''De'') = Done (JArr [])"
    by (simp add: or_else_def)
  from b1 p1 r1 a1 w1 y1 z1 b2 p2 r2 a2 w2 y2 z2 b3 p3 r3 a3 w3 y3 z3 b4 p4 r4 a4 w4 y4 z4 b5 p5 r5 a5 w5 y5 z5 show ?thesis
    unfolding P1_def P2_def P3_def P4_def P5_def by (intro conjI)
qed

text \<open>C4 fails for getStationSuggestionsAI when the stored value is falsy: a response of
  \<^verbatim>\<open>null\<close> is parsed and stored, and the next call with that query finds the entry and
  returns an empty array, not the stored \<^verbatim>\<open>null\<close>.\<close>

theorem stored_value_counterexample:
  "fst (getStationSuggestionsAI sample_parse empty_cache ''de'' (Fulfilled (Some ''null''))) = JNull
   \<and> suggestions (fst (snd (getStationSuggestionsAI sample_parse empty_cache ''de''
         (Fulfilled (Some ''null''))))) (toLowerCase ''de'') = Some JNull
   \<and> getStationSuggestionsAI_begin
        (fst (snd (getStationSuggestionsAI sample_parse empty_cache ''de''
           (Fulfilled (Some ''null''))))) ''de'' = Done (JArr [])"
  by (simp add: eval_defs lower_evals)

text \<open>C4, amended. For each of the five cached adapters, whenever the cache holds the key
  computed from the input, the adapter returns before its external call: it sends no
  request, parses nothing and leaves the cache as it is. searchTrainsAI, getLiveStatusAI,
  getTrainScheduleAI and getCoachPositionAI return the stored value;
  getStationSuggestionsAI returns the stored value, or an empty array when the stored
  value is falsy or the query is shorter than 2 characters.\<close>

theorem cache_hit_served:
  "(search c (toLowerCase from @ ''-'' @ toLowerCase to) = Some v \<longrightarrow>
      searchTrainsAI_begin c from to = Done v
      \<and> searchTrainsAI parse c from to r = (v, c, []))
   \<and> (status c trainNumber = Some v \<longrightarrow>
      getLiveStatusAI_begin c trainNumber = Done v
      \<and> getLiveStatusAI parse c trainNumber r = (v, c, []))
   \<and> (schedules c trainNumber = Some v \<longrightarrow>
      getTrainScheduleAI_begin c trainNumber = Done v
      \<and> getTrainScheduleAI parse c trainNumber r = (v, c, []))
   \<and> (coaches c trainNumber = Some v \<longrightarrow>
      getCoachPositionAI_begin c trainNumber = Done v
      \<and> getCoachPositionAI parse c trainNumber r = (v, c, []))
   \<and> (suggestions c (toLowerCase query) = Some v \<longrightarrow>
      getStationSuggestionsAI_begin c query =
        Done (if length query < 2 then JArr [] else or_else v (JArr []))
      \<and> getStationSuggestionsAI parse c query r =
        (if length query < 2 then JArr [] else or_else v (JArr []), c, []))"
  by (simp add: searchTrainsAI_def searchTrainsAI_begin_def getLiveStatusAI_def
      getLiveStatusAI_begin_def getTrainScheduleAI_def getTrainScheduleAI_begin_def
      getCoachPositionAI_def getCoachPositionAI_begin_def getStationSuggestionsAI_def
      getStationSuggestionsAI_begin_def)

text \<open>C4 amended, on a cache that holds one entry in each of its five maps.\<close>

theorem cache_hit_served_witness:
  "search sample_cache (toLowerCase ''Delhi'' @ ''-'' @ toLowerCase ''Agra'') = Some (JArr [JNum 1])
   \<and> searchTrainsAI sample_parse sample_cache ''Delhi'' ''Agra'' Rejected
       = (JArr [JNum 1], sample_cache, [])
   \<and> status sample_cache ''12951'' = Some (JObj [])
   \<and> getLiveStatusAI sample_parse sample_cache ''12951'' Rejected = (JObj [], sample_cache, [])
   \<and> schedules sample_cache ''12951'' = Some (JObj [])
   \<and> getTrainScheduleAI sample_parse sample_cache ''12951'' Rejected = (JObj [], sample_cache, [])
   \<and> coaches sample_cache ''12951'' = Some JNull
   \<and> getCoachPositionAI sample_parse sample_cache ''12951'' Rejected = (JNull, sample_cache, [])
   \<and> suggestions sample_cache (toLowerCase ''De'') = Some (JArr [JStr ''Delhi (DLI)''])
   \<and> getStationSuggestionsAI sample_parse sample_cache ''De'' Rejected
       = (JArr [JStr ''Delhi (DLI)''], sample_cache, [])"
proof -
  note t = cache_hit_served
  have h1: "search sample_cache (toLowerCase ''Delhi'' @ ''-'' @ toLowerCase ''Agra'')
      = Some (JArr [JNum 1])"
    by (simp add: sample_cache_def lower_evals)
  have h2: "status sample_cache ''12951'' = Some (JObj [])"
    by (simp add: sample_cache_def)
  have h3: "schedules sample_cache ''12951'' = Some (JObj [])"
    by (simp add: sample_cache_def)
  have h4: "coaches sample_cache ''12951'' = Some JNull"
    by (simp add: sample_cache_def)
  have h5: "suggestions sample_cache (toLowerCase ''De'') = Some (JArr [JStr ''Delhi (DLI)''])"
    by (simp add: sample_cache_def lower_evals)
  from t [where c = sample_cache and ?from = "''Delhi''" and to = "''Agra''"
      and v = "JArr [JNum 1]" and parse = sample_parse and r = Rejected, THEN conjunct1] h1
  have c1: "searchTrainsAI sample_parse sample_cache ''Delhi'' ''Agra'' Rejected
       = (JArr [JNum 1], sample_cache, [])"
    by blast
  from t [where c = sample_cache and trainNumber = "''12951''"
      and v = "JObj []" and parse = sample_parse and r = Rejected] h2 h3
  have c2: "getLiveStatusAI sample_parse sample_cache ''12951'' Rejected = (JObj [], sample_cache, [])"
    and c3: "getTrainScheduleAI sample_parse sample_cache ''12951'' Rejected
       = (JObj [], sample_cache, [])"
    by blast+
  from t [where c = sample_cache and trainNumber = "''12951''"
      and v = JNull and parse = sample_parse and r = Rejected] h4
  have c4: "getCoachPositionAI sample_parse sample_cache ''12951'' Rejected
       = (JNull, sample_cache, [])"
    by blast
  from t [where c = sample_cache and query = "''De''"
      and v = "JArr [JStr ''Delhi (DLI)'']" and parse = sample_parse and r = Rejected] h5
  have c5: "getStationSuggestionsAI sample_parse sample_cache ''De'' Rejected
       = (JArr [JStr ''Delhi (DLI)''], sample_cache, [])"
    by (simp add: or_else_def)
  from h1 h2 h3 h4 h5 c1 c2 c3 c4 c5 show ?thesis by blast
qed

text \<open>C5 fails when calls overlap, and for falsy suggestions. Two calls of
  getLiveStatusAI for the same train both miss the cache before either response arrives;
  the first response writes the entry, the second replaces it, and a later call returns
  the second value, not the one first stored. And a getStationSuggestionsAI call that
  stored \<^verbatim>\<open>null\<close> is followed by a call that returns an empty array.\<close>

theorem single_writer_counterexample:
  "status (store (run sample_parse fresh_process
      [Call (GetLiveStatus ''12951''), Call (GetLiveStatus ''12951''),
       Settle 0 (Fulfilled (Some ''{}''))])) ''12951'' = Some (JObj [])
   \<and> status (store (run sample_parse fresh_process
      [Call (GetLiveStatus ''12951''), Call (GetLiveStatus ''12951''),
       Settle 0 (Fulfilled (Some ''{}'')), Settle 0 (Fulfilled (Some ''[1]''))])) ''12951''
       = Some (JArr [JNum 1])
   \<and> returned (run sample_parse fresh_process
      [Call (GetLiveStatus ''12951''), Call (GetLiveStatus ''12951''),
       Settle 0 (Fulfilled (Some ''{}'')), Settle 0 (Fulfilled (Some ''[1]'')),
       Call (GetLiveStatus ''12951'')])
       = [JObj [], JArr [JNum 1], JArr [JNum 1]]
   \<and> returned (run sample_parse fresh_process
      [Call (GetStationSuggestions ''de''), Settle 0 (Fulfilled (Some ''null'')),
       Call (GetStationSuggestions ''de'')])
       = [JNull, JArr []]"
  by (simp add: eval_defs lower_evals)

text \<open>C5, amended. No adapter call ever removes a cache entry. Once an entry is in the
  cache and no call that missed it is still waiting for its response, no adapter call,
  in any interleaving of calls and responses, changes it: calls with that key return
  before their external call, and the calls still waiting write other entries. Every
  later call with the same key then returns the stored value, except that
  getStationSuggestionsAI returns an empty array when the stored value is falsy or the
  query is shorter than 2 characters. An entry can be replaced only by a call with the
  same key that was already waiting for its response when the entry was written.\<close>

theorem settled_entry_kept:
  "(entry (store p) s \<noteq> None \<longrightarrow> entry (store (run parse p acts)) s \<noteq> None)
   \<and> (entry (store p) s = Some v \<and> s \<notin> set (waiting p) \<longrightarrow>
        entry (store (run parse p acts)) s = Some v
        \<and> s \<notin> set (waiting (run parse p acts))
        \<and> (\<forall>cl. slot_of cl = s \<longrightarrow>
              invoke (store (run parse p acts)) cl =
                Done (case cl of
                        GetStationSuggestions query \<Rightarrow>
                          if length query < 2 then JArr [] else or_else v (JArr [])
                      | _ \<Rightarrow> v)))"
proof -
  have kept: "entry (store p) s \<noteq> None \<longrightarrow> entry (store (run parse p acts)) s \<noteq> None"
    using run_keeps_entry [of p s parse acts] by blast
  have fixed: "entry (store p) s = Some v \<and> s \<notin> set (waiting p) \<longrightarrow>
        entry (store (run parse p acts)) s = Some v
        \<and> s \<notin> set (waiting (run parse p acts))
        \<and> (\<forall>cl. slot_of cl = s \<longrightarrow>
              invoke (store (run parse p acts)) cl =
                Done (case cl of
                        GetStationSuggestions query \<Rightarrow>
                          if length query < 2 then JArr [] else or_else v (JArr [])
                      | _ \<Rightarrow> v))"
  proof (intro impI)
    assume h: "entry (store p) s = Some v \<and> s \<notin> set (waiting p)"
    from run_settled_entry [of p s v parse acts] h
    have e: "entry (store (run parse p acts)) s = Some v"
      and w: "s \<notin> set (waiting (run parse p acts))" by simp_all
    from e have "\<forall>cl. slot_of cl = s \<longrightarrow>
              invoke (store (run parse p acts)) cl =
                Done (case cl of
                        GetStationSuggestions query \<Rightarrow>
                          if length query < 2 then JArr [] else or_else v (JArr [])
                      | _ \<Rightarrow> v)"
      using invoke_hit by blast
    with e w show "entry (store (run parse p acts)) s = Some v
        \<and> s \<notin> set (waiting (run parse p acts))
        \<and> (\<forall>cl. slot_of cl = s \<longrightarrow>
              invoke (store (run parse p acts)) cl =
                Done (case cl of
                        GetStationSuggestions query \<Rightarrow>
                          if length query < 2 then JArr [] else or_else v (JArr [])
                      | _ \<Rightarrow> v))"
      by blast
  qed
  from kept fixed show ?thesis by blast
qed

text \<open>C5 amended, on a process in which one getLiveStatusAI call has completed and
  stored its result: a further call for the same train, a schedule call and its
  rejection leave the entry in place, and the next call for that train returns it.\<close>

theorem settled_entry_kept_witness:
  "entry (store (run sample_parse fresh_process
       [Call (GetLiveStatus ''12951''), Settle 0 (Fulfilled (Some ''{}''))]))
     (InStatus ''12951'') = Some (JObj [])
   \<and> InStatus ''12951'' \<notin> set (waiting (run sample_parse fresh_process
       [Call (GetLiveStatus ''12951''), Settle 0 (Fulfilled (Some ''{}''))]))
   \<and> slot_of (GetLiveStatus ''12951'') = InStatus ''12951''
   \<and> entry (store (run sample_parse (run sample_parse fresh_process
         [Call (GetLiveStatus ''12951''), Settle 0 (Fulfilled (Some ''{}''))])
       [Call (GetLiveStatus ''12951''), Call (GetTrainSchedule ''12951''), Settle 0 Rejected]))
     (InStatus ''12951'') = Some (JObj [])
   \<and> invoke (store (run sample_parse (run sample_parse fresh_process
         [Call (GetLiveStatus ''12951''), Settle 0 (Fulfilled (Some ''{}''))])
       [Call (GetLiveStatus ''12951''), Call (GetTrainSchedule ''12951''), Settle 0 Rejected]))
     (GetLiveStatus ''12951'') = Done (JObj [])"
proof -
  define p where "p = run sample_parse fresh_process
       [Call (GetLiveStatus ''12951''), Settle 0 (Fulfilled (Some ''{}''))]"
  define acts where "acts = [Call (GetLiveStatus ''12951''), Call (GetTrainSchedule ''12951''),
       Settle 0 Rejected]"
  have h1: "entry (store p) (InStatus ''12951'') = Some (JObj [])"
    by (simp add: p_def eval_defs)
  have h2: "InStatus ''12951'' \<notin> set (waiting p)"
    by (simp add: p_def eval_defs)
  have h3: "slot_of (GetLiveStatus ''12951'') = InStatus ''12951''"
    by simp
  note t = settled_entry_kept [where p = p and s = "InStatus ''12951''" and v = "JObj []"
      and parse = sample_parse and acts = acts, THEN conjunct2, rule_format, OF conjI, OF h1 h2]
  from t have c1: "entry (store (run sample_parse p acts)) (InStatus ''12951'') = Some (JObj [])"
    by (rule conjunct1)
  from t have "\<forall>cl. slot_of cl = InStatus ''12951'' \<longrightarrow>
            invoke (store (run sample_parse p acts)) cl =
              Done (case cl of
                      GetStationSuggestions query \<Rightarrow>
                        if length query < 2 then JArr [] else or_else (JObj []) (JArr [])
                    | _ \<Rightarrow> JObj [])"
    by (intro conjunct2 [OF conjunct2 [OF t]])
  from this [rule_format, OF h3]
  have c2: "invoke (store (run sample_parse p acts)) (GetLiveStatus ''12951'') = Done (JObj [])"
    by simp
  from h1 h2 h3 c1 c2 show ?thesis
    unfolding p_def acts_def by (intro conjI)
qed

section \<open>Letter case and keys\<close>

lemma same_letter_lower: "same_letter a b \<Longrightarrow> lower_char a = lower_char b"
  unfolding same_letter_def lower_char_def
  by (auto simp: is_upper_def dest: sym)

lemma case_variant_toLowerCase: "case_variant s t \<Longrightarrow> toLowerCase s = toLowerCase t"
  unfolding case_variant_def toLowerCase_def
  by (induction s t rule: list_all2_induct) (auto dest: same_letter_lower)


text \<open>The strings that lowercasing maps to one string are exactly those that differ
  only in letter case.\<close>

lemma lower_char_same_letter: "lower_char a = lower_char b \<Longrightarrow> same_letter a b"
  unfolding same_letter_def lower_char_def
  by (auto simp: is_upper_def split: if_splits)

lemma toLowerCase_case_variant: "toLowerCase s = toLowerCase t \<Longrightarrow> case_variant s t"
  unfolding case_variant_def toLowerCase_def
  by (induction s arbitrary: t) (auto simp: lower_char_same_letter)

lemma case_variant_iff: "case_variant s t \<longleftrightarrow> toLowerCase s = toLowerCase t"
  using case_variant_toLowerCase toLowerCase_case_variant by blast





lemma lower_char_Eacute: "lower_char (CHR 0xC9) = CHR 0xE9"
  by code_simp




section \<open>Requests per call and per handler\<close>

lemma at_most_one_request:
  "length (snd (snd (searchTrainsAI parse c from to r))) \<le> 1"
  "length (snd (snd (getLiveStatusAI parse c trainNumber r))) \<le> 1"
  "length (snd (snd (getTrainScheduleAI parse c trainNumber r))) \<le> 1"
  "length (snd (snd (getCoachPositionAI parse c trainNumber r))) \<le> 1"
  "length (snd (snd (getRailAssistantResponseStream q sr))) \<le> 1"
  by (simp_all add: searchTrainsAI_def getLiveStatusAI_def getTrainScheduleAI_def
      getCoachPositionAI_def getRailAssistantResponseStream_def
      split: started.splits prod.splits sum.splits)

text \<open>C7. One run of a submit or send handler (handleSearch, handleLiveSearch,
  handleScheduleSearch, handleCoachSearch, handleSendMessage) invokes at most one adapter
  function, and that adapter sends at most one request to the external model; with a
  single adapter call in the run, no two of its calls are ever outstanding together.\<close>

theorem handler_one_adapter_call:
  "length (fst (snd (handleSearch parse w r))) \<le> 1
   \<and> length (snd (snd (handleSearch parse w r))) \<le> 1
   \<and> length (fst (snd (handleLiveSearch parse w r))) \<le> 1
   \<and> length (snd (snd (handleLiveSearch parse w r))) \<le> 1
   \<and> length (fst (snd (handleScheduleSearch parse w r))) \<le> 1
   \<and> length (snd (snd (handleScheduleSearch parse w r))) \<le> 1
   \<and> length (fst (snd (handleCoachSearch parse w r))) \<le> 1
   \<and> length (snd (snd (handleCoachSearch parse w r))) \<le> 1
   \<and> length (fst (snd (handleSendMessage w sr))) \<le> 1
   \<and> length (snd (snd (handleSendMessage w sr))) \<le> 1"
proof -
  have search: "length (fst (snd (handleSearch parse w r))) \<le> 1
      \<and> length (snd (snd (handleSearch parse w r))) \<le> 1"
    using at_most_one_request(1) [of parse "mem w" "searchFrom (ui w)" "searchTo (ui w)" r]
    by (auto simp: handleSearch_def Let_def split: prod.splits)
  have live: "length (fst (snd (handleLiveSearch parse w r))) \<le> 1
      \<and> length (snd (snd (handleLiveSearch parse w r))) \<le> 1"
    using at_most_one_request(2) [of parse "mem w" "liveSearchInput (ui w)" r]
    by (auto simp: handleLiveSearch_def Let_def split: prod.splits)
  have sched: "length (fst (snd (handleScheduleSearch parse w r))) \<le> 1
      \<and> length (snd (snd (handleScheduleSearch parse w r))) \<le> 1"
    using at_most_one_request(3) [of parse "mem w" "scheduleInput (ui w)" r]
    by (auto simp: handleScheduleSearch_def Let_def split: prod.splits)
  have coach: "length (fst (snd (handleCoachSearch parse w r))) \<le> 1
      \<and> length (snd (snd (handleCoachSearch parse w r))) \<le> 1"
    using at_most_one_request(4) [of parse "mem w" "coachInput (ui w)" r]
    by (auto simp: handleCoachSearch_def Let_def split: prod.splits)
  have send: "length (fst (snd (handleSendMessage w sr))) \<le> 1
      \<and> length (snd (snd (handleSendMessage w sr))) \<le> 1"
    using at_most_one_request(5) [of "botInput (ui w)" sr]
    by (auto simp: handleSendMessage_def Let_def split: prod.splits)
  from search live sched coach send show ?thesis by blast
qed

text \<open>C7 on a sample view state with an empty cache: handleSearch invokes searchTrainsAI
  once and sends one request; handleSendMessage invokes the stream once.\<close>

theorem handler_one_adapter_call_witness:
  "fst (snd (handleSearch sample_parse sample_world (Fulfilled (Some ''[1]''))))
      = [Adapter (SearchTrains ''Delhi'' ''Agra'')]
   \<and> length (fst (snd (handleSearch sample_parse sample_world (Fulfilled (Some ''[1]''))))) \<le> 1
   \<and> length (snd (snd (handleSearch sample_parse sample_world (Fulfilled (Some ''[1]''))))) \<le> 1
   \<and> fst (snd (handleSendMessage sample_world (Streaming [Some ''Plat'', Some ''form 4''] Completes)))
      = [AssistantStream ''Platform?'']
   \<and> length (fst (snd (handleSendMessage sample_world
        (Streaming [Some ''Plat'', Some ''form 4''] Completes)))) \<le> 1
   \<and> length (snd (snd (handleSendMessage sample_world
        (Streaming [Some ''Plat'', Some ''form 4''] Completes)))) \<le> 1"
proof -
  note t = handler_one_adapter_call [where parse = sample_parse and w = sample_world
      and r = "Fulfilled (Some ''[1]'')"
      and sr = "Streaming [Some ''Plat'', Some ''form 4''] Completes"]
  have a: "fst (snd (handleSearch sample_parse sample_world (Fulfilled (Some ''[1]''))))
      = [Adapter (SearchTrains ''Delhi'' ''Agra'')]"
    by (simp add: handleSearch_def sample_world_def sample_ui_def Let_def split: prod.splits)
  have b: "fst (snd (handleSendMessage sample_world
        (Streaming [Some ''Plat'', Some ''form 4''] Completes)))
      = [AssistantStream ''Platform?'']"
    by (simp add: handleSendMessage_def sample_world_def sample_ui_def Let_def trim_def
        is_space_def split: prod.splits)
  from t a b show ?thesis by blast
qed

text \<open>A call that has issued its request and whose \<^verbatim>\<open>try\<close> block throws returns its
  default and leaves the cache it finds when it resumes; the same query then misses in
  any cache without its key and is served from any cache that holds it.\<close>

lemma searchTrainsAI_fails:
  assumes "searchTrainsAI_begin c0 from to = Await req k"
    and "searchTrainsAI_try parse c k r = Inl e"
  shows "searchTrainsAI_resume parse c k r = (JArr [], c)
    \<and> (search c1 k = None \<longrightarrow> searchTrainsAI_begin c1 from to = Await req k)
    \<and> (search c1 k = Some v \<longrightarrow> searchTrainsAI_begin c1 from to = Done v)"
  using assms
  by (auto simp: searchTrainsAI_begin_def searchTrainsAI_resume_def Let_def
      split: option.splits)

lemma getLiveStatusAI_fails:
  assumes "getLiveStatusAI_begin c0 trainNumber = Await req k"
    and "getLiveStatusAI_try parse c k r = Inl e"
  shows "getLiveStatusAI_resume parse c k r = (JNull, c)
    \<and> (status c1 k = None \<longrightarrow> getLiveStatusAI_begin c1 trainNumber = Await req k)
    \<and> (status c1 k = Some v \<longrightarrow> getLiveStatusAI_begin c1 trainNumber = Done v)"
  using assms
  by (auto simp: getLiveStatusAI_begin_def getLiveStatusAI_resume_def split: option.splits)

lemma getStationSuggestionsAI_fails:
  assumes "getStationSuggestionsAI_begin c0 query = Await req k"
    and "getStationSuggestionsAI_try parse c k r = Inl e"
  shows "getStationSuggestionsAI_resume parse c k r = (JArr [], c)
    \<and> (suggestions c1 k = None \<longrightarrow> getStationSuggestionsAI_begin c1 query = Await req k)
    \<and> (suggestions c1 k = Some v \<longrightarrow>
         getStationSuggestionsAI_begin c1 query = Done (or_else v (JArr [])))"
  using assms
  by (auto simp: getStationSuggestionsAI_begin_def getStationSuggestionsAI_resume_def Let_def
      split: option.splits if_splits)

lemma getTrainScheduleAI_fails:
  assumes "getTrainScheduleAI_begin c0 trainNumber = Await req k"
    and "getTrainScheduleAI_try parse c k r = Inl e"
  shows "getTrainScheduleAI_resume parse c k r = (JNull, c)
    \<and> (schedules c1 k = None \<longrightarrow> getTrainScheduleAI_begin c1 trainNumber = Await req k)
    \<and> (schedules c1 k = Some v \<longrightarrow> getTrainScheduleAI_begin c1 trainNumber = Done v)"
  using assms
  by (auto simp: getTrainScheduleAI_begin_def getTrainScheduleAI_resume_def split: option.splits)

lemma getCoachPositionAI_fails:
  assumes "getCoachPositionAI_begin c0 trainNumber = Await req k"
    and "getCoachPositionAI_try parse c k r = Inl e"
  shows "getCoachPositionAI_resume parse c k r = (JNull, c)
    \<and> (coaches c1 k = None \<longrightarrow> getCoachPositionAI_begin c1 trainNumber = Await req k)
    \<and> (coaches c1 k = Some v \<longrightarrow> getCoachPositionAI_begin c1 trainNumber = Done v)"
  using assms
  by (auto simp: getCoachPositionAI_begin_def getCoachPositionAI_resume_def split: option.splits)

text \<open>C8 fails when calls overlap. Two calls of getTrainScheduleAI for the same train
  both miss the cache; the first response parses and is stored, the second call is
  rejected and returns null leaving the cache as it is, with the entry of the first. The
  identical query that follows is served that entry: it returns at once and sends no
  request, so nothing is left waiting.\<close>

theorem fresh_call_counterexample:
  "returned (run sample_parse fresh_process
      [Call (GetTrainSchedule ''12951''), Call (GetTrainSchedule ''12951''),
       Settle 0 (Fulfilled (Some ''{}'')), Settle 0 Rejected])
     = [JObj [], JNull]
   \<and> returned (run sample_parse fresh_process
      [Call (GetTrainSchedule ''12951''), Call (GetTrainSchedule ''12951''),
       Settle 0 (Fulfilled (Some ''{}'')), Settle 0 Rejected,
       Call (GetTrainSchedule ''12951'')])
     = [JObj [], JNull, JObj []]
   \<and> waiting (run sample_parse fresh_process
      [Call (GetTrainSchedule ''12951''), Call (GetTrainSchedule ''12951''),
       Settle 0 (Fulfilled (Some ''{}'')), Settle 0 Rejected,
       Call (GetTrainSchedule ''12951'')])
     = []"
  by (simp add: eval_defs)

text \<open>C8, amended. For every cached adapter, when the external call or the JSON parse
  throws, the call returns its default and leaves the cache exactly as it finds it when
  it resumes: no entry is added or modified, so the failure is not cached. A subsequent
  identical query issues a fresh external call, with the same request, whenever its key
  is absent from the cache in which it starts; when another call with the same key has
  stored its result in the meantime, the query is answered from that entry without an
  external call.\<close>

theorem failure_leaves_cache:
  "(searchTrainsAI_begin c0 from to = Await req k \<and> searchTrainsAI_try parse c k r = Inl e \<longrightarrow>
       searchTrainsAI_resume parse c k r = (JArr [], c)
       \<and> (search c1 k = None \<longrightarrow> searchTrainsAI_begin c1 from to = Await req k)
       \<and> (search c1 k = Some v \<longrightarrow> searchTrainsAI_begin c1 from to = Done v))
   \<and> (getLiveStatusAI_begin c0 trainNumber = Await req k
        \<and> getLiveStatusAI_try parse c k r = Inl e \<longrightarrow>
       getLiveStatusAI_resume parse c k r = (JNull, c)
       \<and> (status c1 k = None \<longrightarrow> getLiveStatusAI_begin c1 trainNumber = Await req k)
       \<and> (status c1 k = Some v \<longrightarrow> getLiveStatusAI_begin c1 trainNumber = Done v))
   \<and> (getStationSuggestionsAI_begin c0 query = Await req k
        \<and> getStationSuggestionsAI_try parse c k r = Inl e \<longrightarrow>
       getStationSuggestionsAI_resume parse c k r = (JArr [], c)
       \<and> (suggestions c1 k = None \<longrightarrow> getStationSuggestionsAI_begin c1 query = Await req k)
       \<and> (suggestions c1 k = Some v \<longrightarrow>
            getStationSuggestionsAI_begin c1 query = Done (or_else v (JArr []))))
   \<and> (getTrainScheduleAI_begin c0 trainNumber = Await req k
        \<and> getTrainScheduleAI_try parse c k r = Inl e \<longrightarrow>
       getTrainScheduleAI_resume parse c k r = (JNull, c)
       \<and> (schedules c1 k = None \<longrightarrow> getTrainScheduleAI_begin c1 trainNumber = Await req k)
       \<and> (schedules c1 k = Some v \<longrightarrow> getTrainScheduleAI_begin c1 trainNumber = Done v))
   \<and> (getCoachPositionAI_begin c0 trainNumber = Await req k
        \<and> getCoachPositionAI_try parse c k r = Inl e \<longrightarrow>
       getCoachPositionAI_resume parse c k r = (JNull, c)
       \<and> (coaches c1 k = None \<longrightarrow> getCoachPositionAI_begin c1 trainNumber = Await req k)
       \<and> (coaches c1 k = Some v \<longrightarrow> getCoachPositionAI_begin c1 trainNumber = Done v))"
  using searchTrainsAI_fails [of c0 "from" to req k parse c r e c1 v]
    getLiveStatusAI_fails [of c0 trainNumber req k parse c r e c1 v]
    getStationSuggestionsAI_fails [of c0 query req k parse c r e c1 v]
    getTrainScheduleAI_fails [of c0 trainNumber req k parse c r e c1 v]
    getCoachPositionAI_fails [of c0 trainNumber req k parse c r e c1 v]
  by blast

text \<open>C8 amended, at concrete inputs. Each cached adapter misses on the empty cache and
  resumes in a cache that other calls have filled under other keys; its call is rejected
  or its response does not parse, so it returns its default and leaves that cache as it
  is. The same query started in that cache misses again and sends the same request;
  started in a cache that holds the key it is served the entry.\<close>

theorem failure_leaves_cache_witness:
  "searchTrainsAI_begin empty_cache ''agra'' ''delhi''
      = Await \<lparr>model = ''gemini-3-pro-preview'', contents = ''Trains from agra to delhi.'',
               thinkingBudget = 32768\<rparr> ''agra-delhi''
   \<and> searchTrainsAI_try sample_parse sample_cache ''agra-delhi'' Rejected = Inl ApiError
   \<and> searchTrainsAI_resume sample_parse sample_cache ''agra-delhi'' Rejected = (JArr [], sample_cache)
   \<and> search sample_cache ''agra-delhi'' = None
   \<and> searchTrainsAI_begin sample_cache ''agra'' ''delhi''
      = Await \<lparr>model = ''gemini-3-pro-preview'', contents = ''Trains from agra to delhi.'',
               thinkingBudget = 32768\<rparr> ''agra-delhi''
   \<and> search (empty_cache\<lparr>search := [''agra-delhi'' \<mapsto> JArr [JNum 1]]\<rparr>) ''agra-delhi'' = Some (JArr [JNum 1])
   \<and> searchTrainsAI_begin (empty_cache\<lparr>search := [''agra-delhi'' \<mapsto> JArr [JNum 1]]\<rparr>) ''agra'' ''delhi'' = Done (JArr [JNum 1])
   \<and> getLiveStatusAI_begin empty_cache ''22436''
      = Await \<lparr>model = ''gemini-3-pro-preview'', contents = ''Live status for 22436.'',
               thinkingBudget = 32768\<rparr> ''22436''
   \<and> getLiveStatusAI_try sample_parse sample_cache ''22436'' (Fulfilled (Some ''<html>'')) = Inl SyntaxError
   \<and> getLiveStatusAI_resume sample_parse sample_cache ''22436'' (Fulfilled (Some ''<html>'')) = (JNull, sample_cache)
   \<and> status sample_cache ''22436'' = None
   \<and> getLiveStatusAI_begin sample_cache ''22436''
      = Await \<lparr>model = ''gemini-3-pro-preview'', contents = ''Live status for 22436.'',
               thinkingBudget = 32768\<rparr> ''22436''
   \<and> status (empty_cache\<lparr>status := [''22436'' \<mapsto> JObj []]\<rparr>) ''22436'' = Some (JObj [])
   \<and> getLiveStatusAI_begin (empty_cache\<lparr>status := [''22436'' \<mapsto> JObj []]\<rparr>) ''22436'' = Done (JObj [])
   \<and> getStationSuggestionsAI_begin empty_cache ''ag''
      = Await \<lparr>model = ''gemini-3-flash-preview'',
               contents = ''List 5 popular Indian railway stations matching ''
                 @ [CHR 0x22] @ ''ag'' @ [CHR 0x22] @ ''.'',
               thinkingBudget = 0\<rparr> ''ag''
   \<and> getStationSuggestionsAI_try sample_parse sample_cache ''ag'' Rejected = Inl ApiError
   \<and> getStationSuggestionsAI_resume sample_parse sample_cache ''ag'' Rejected = (JArr [], sample_cache)
   \<and> suggestions sample_cache ''ag'' = None
   \<and> getStationSuggestionsAI_begin sample_cache ''ag''
      = Await \<lparr>model = ''gemini-3-flash-preview'',
               contents = ''List 5 popular Indian railway stations matching ''
                 @ [CHR 0x22] @ ''ag'' @ [CHR 0x22] @ ''.'',
               thinkingBudget = 0\<rparr> ''ag''
   \<and> suggestions (empty_cache\<lparr>suggestions := [''ag'' \<mapsto> JNull]\<rparr>) ''ag'' = Some (JNull)
   \<and> getStationSuggestionsAI_begin (empty_cache\<lparr>suggestions := [''ag'' \<mapsto> JNull]\<rparr>) ''ag'' = Done (JArr [])
   \<and> getTrainScheduleAI_begin empty_cache ''22436''
      = Await \<lparr>model = ''gemini-3-pro-preview'',
               contents = ''Provide full route schedule for train 22436. Include halt time (e.g. 5 min) and estimated platform number for each stop.'',
               thinkingBudget = 32768\<rparr> ''22436''
   \<and> getTrainScheduleAI_try sample_parse sample_cache ''22436'' Rejected = Inl ApiError
   \<and> getTrainScheduleAI_resume sample_parse sample_cache ''22436'' Rejected = (JNull, sample_cache)
   \<and> schedules sample_cache ''22436'' = None
   \<and> getTrainScheduleAI_begin sample_cache ''22436''
      = Await \<lparr>model = ''gemini-3-pro-preview'',
               contents = ''Provide full route schedule for train 22436. Include halt time (e.g. 5 min) and estimated platform number for each stop.'',
               thinkingBudget = 32768\<rparr> ''22436''
   \<and> schedules (empty_cache\<lparr>schedules := [''22436'' \<mapsto> JObj []]\<rparr>) ''22436'' = Some (JObj [])
   \<and> getTrainScheduleAI_begin (empty_cache\<lparr>schedules := [''22436'' \<mapsto> JObj []]\<rparr>) ''22436'' = Done (JObj [])
   \<and> getCoachPositionAI_begin empty_cache ''22436''
      = Await \<lparr>model = ''gemini-3-pro-preview'',
               contents = ''Provide the coach position sequence for train 22436 in India.'',
               thinkingBudget = 32768\<rparr> ''22436''
   \<and> getCoachPositionAI_try sample_parse sample_cache ''22436'' (Fulfilled (Some ''<html>'')) = Inl SyntaxError
   \<and> getCoachPositionAI_resume sample_parse sample_cache ''22436'' (Fulfilled (Some ''<html>'')) = (JNull, sample_cache)
   \<and> coaches sample_cache ''22436'' = None
   \<and> getCoachPositionAI_begin sample_cache ''22436''
      = Await \<lparr>model = ''gemini-3-pro-preview'',
               contents = ''Provide the coach position sequence for train 22436 in India.'',
               thinkingBudget = 32768\<rparr> ''22436''
   \<and> coaches (empty_cache\<lparr>coaches := [''22436'' \<mapsto> JArr [JNum 1]]\<rparr>) ''22436'' = Some (JArr [JNum 1])
   \<and> getCoachPositionAI_begin (empty_cache\<lparr>coaches := [''22436'' \<mapsto> JArr [JNum 1]]\<rparr>) ''22436'' = Done (JArr [JNum 1])"
proof -
  note t = failure_leaves_cache
  have b1: "searchTrainsAI_begin empty_cache ''agra'' ''delhi''
      = Await \<lparr>model = ''gemini-3-pro-preview'', contents = ''Trains from agra to delhi.'',
               thinkingBudget = 32768\<rparr> ''agra-delhi''"
    by (simp add: searchTrainsAI_begin_def empty_cache_def lower_evals)
  have f1: "searchTrainsAI_try sample_parse sample_cache ''agra-delhi'' Rejected = Inl ApiError"
    by (simp add: searchTrainsAI_try_def await_response_def)
  have n1: "search sample_cache ''agra-delhi'' = None"
    by (simp add: sample_cache_def)
  have s1: "search (empty_cache\<lparr>search := [''agra-delhi'' \<mapsto> JArr [JNum 1]]\<rparr>) ''agra-delhi'' = Some (JArr [JNum 1])"
    by simp
  note u1 = t [where parse = sample_parse and c = sample_cache and r = "Rejected"
      and e = ApiError and v = "JArr [JNum 1]",
      THEN conjunct1, rule_format, OF conjI, OF b1 f1]
  from u1 [THEN conjunct1]
  have r1: "searchTrainsAI_resume sample_parse sample_cache ''agra-delhi'' Rejected = (JArr [], sample_cache)" .
  from u1 [THEN conjunct2, THEN conjunct1, rule_format, of sample_cache, OF n1]
  have a1: "searchTrainsAI_begin sample_cache ''agra'' ''delhi''
      = Await \<lparr>model = ''gemini-3-pro-preview'', contents = ''Trains from agra to delhi.'',
               thinkingBudget = 32768\<rparr> ''agra-delhi''" .
  from u1 [THEN conjunct2, THEN conjunct2, rule_format, OF s1]
  have h1: "searchTrainsAI_begin (empty_cache\<lparr>search := [''agra-delhi'' \<mapsto> JArr [JNum 1]]\<rparr>) ''agra'' ''delhi'' = Done (JArr [JNum 1])"
    by (simp add: or_else_def)
  have b2: "getLiveStatusAI_begin empty_cache ''22436''
      = Await \<lparr>model = ''gemini-3-pro-preview'', contents = ''Live status for 22436.'',
               thinkingBudget = 32768\<rparr> ''22436''"
    by (simp add: getLiveStatusAI_begin_def empty_cache_def)
  have f2: "getLiveStatusAI_try sample_parse sample_cache ''22436'' (Fulfilled (Some ''<html>'')) = Inl SyntaxError"
    by (simp add: getLiveStatusAI_try_def await_response_def JSON_parse_def text_or_def
        sample_parse_def)
  have n2: "status sample_cache ''22436'' = None"
    by (simp add: sample_cache_def)
  have s2: "status (empty_cache\<lparr>status := [''22436'' \<mapsto> JObj []]\<rparr>) ''22436'' = Some (JObj [])"
    by simp
  note u2 = t [where parse = sample_parse and c = sample_cache and r = "Fulfilled (Some ''<html>'')"
      and e = SyntaxError and v = "JObj []",
      THEN conjunct2, THEN conjunct1, rule_format, OF conjI, OF b2 f2]
  from u2 [THEN conjunct1]
  have r2: "getLiveStatusAI_resume sample_parse sample_cache ''22436'' (Fulfilled (Some ''<html>'')) = (JNull, sample_cache)" .
  from u2 [THEN conjunct2, THEN conjunct1, rule_format, of sample_cache, OF n2]
  have a2: "getLiveStatusAI_begin sample_cache ''22436''
      = Await \<lparr>model = ''gemini-3-pro-preview'', contents = ''Live status for 22436.'',
               thinkingBudget = 32768\<rparr> ''22436''" .
  from u2 [THEN conjunct2, THEN conjunct2, rule_format, OF s2]
  have h2: "getLiveStatusAI_begin (empty_cache\<lparr>status := [''22436'' \<mapsto> JObj []]\<rparr>) ''22436'' = Done (JObj [])"
    by (simp add: or_else_def)
  have b3: "getStationSuggestionsAI_begin empty_cache ''ag''
      = Await \<lparr>model = ''gemini-3-flash-preview'',
               contents = ''List 5 popular Indian railway stations matching ''
                 @ [CHR 0x22] @ ''ag'' @ [CHR 0x22] @ ''.'',
               thinkingBudget = 0\<rparr> ''ag''"
    by (simp add: getStationSuggestionsAI_begin_def empty_cache_def lower_evals)
  have f3: "getStationSuggestionsAI_try sample_parse sample_cache ''ag'' Rejected = Inl ApiError"
    by (simp add: getStationSuggestionsAI_try_def await_response_def)
  have n3: "suggestions sample_cache ''ag'' = None"
    by (simp add: sample_cache_def)
  have s3: "suggestions (empty_cache\<lparr>suggestions := [''ag'' \<mapsto> JNull]\<rparr>) ''ag'' = Some (JNull)"
    by simp
  note u3 = t [where parse = sample_parse and c = sample_cache and r = "Rejected"
      and e = ApiError and v = "JNull",
      THEN conjunct2, THEN conjunct2, THEN conjunct1, rule_format, OF conjI, OF b3 f3]
  from u3 [THEN conjunct1]
  have r3: "getStationSuggestionsAI_resume sample_parse sample_cache ''ag'' Rejected = (JArr [], sample_cache)" .
  from u3 [THEN conjunct2, THEN conjunct1, rule_format, of sample_cache, OF n3]
  have a3: "getStationSuggestionsAI_begin sample_cache ''ag''
      = Await \<lparr>model = ''gemini-3-flash-preview'',
               contents = ''List 5 popular Indian railway stations matching ''
                 @ [CHR 0x22] @ ''ag'' @ [CHR 0x22] @ ''.'',
               thinkingBudget = 0\<rparr> ''ag''" .
  from u3 [THEN conjunct2, THEN conjunct2, rule_format, OF s3]
  have h3: "getStationSuggestionsAI_begin (empty_cache\<lparr>suggestions := [''ag'' \<mapsto> JNull]\<rparr>) ''ag'' = Done (JArr [])"
    by (simp add: or_else_def)
  have b4: "getTrainScheduleAI_begin empty_cache ''22436''
      = Await \<lparr>model = ''gemini-3-pro-preview'',
               contents = ''Provide full route schedule for train 22436. Include halt time (e.g. 5 min) and estimated platform number for each stop.'',
               thinkingBudget = 32768\<rparr> ''22436''"
    by (simp add: getTrainScheduleAI_begin_def empty_cache_def)
  have f4: "getTrainScheduleAI_try sample_parse sample_cache ''22436'' Rejected = Inl ApiError"
    by (simp add: getTrainScheduleAI_try_def await_response_def)
  have n4: "schedules sample_cache ''22436'' = None"
    by (simp add: sample_cache_def)
  have s4: "schedules (empty_cache\<lparr>schedules := [''22436'' \<mapsto> JObj []]\<rparr>) ''22436'' = Some (JObj [])"
    by simp
  note u4 = t [where parse = sample_parse and c = sample_cache and r = "Rejected"
      and e = ApiError and v = "JObj []",
      THEN conjunct2, THEN conjunct2, THEN conjunct2, THEN conjunct1, rule_format, OF conjI, OF b4 f4]
  from u4 [THEN conjunct1]
  have r4: "getTrainScheduleAI_resume sample_parse sample_cache ''22436'' Rejected = (JNull, sample_cache)" .
  from u4 [THEN conjunct2, THEN conjunct1, rule_format, of sample_cache, OF n4]
  have a4: "getTrainScheduleAI_begin sample_cache ''22436''
      = Await \<lparr>model = ''gemini-3-pro-preview'',
               contents = ''Provide full route schedule for train 22436. Include halt time (e.g. 5 min) and estimated platform number for each stop.'',
               thinkingBudget = 32768\<rparr> ''22436''" .
  from u4 [THEN conjunct2, THEN conjunct2, rule_format, OF s4]
  have h4: "getTrainScheduleAI_begin (empty_cache\<lparr>schedules := [''22436'' \<mapsto> JObj []]\<rparr>) ''22436'' = Done (JObj [])"
    by (simp add: or_else_def)
  have b5: "getCoachPositionAI_begin empty_cache ''22436''
      = Await \<lparr>model = ''gemini-3-pro-preview'',
               contents = ''Provide the coach position sequence for train 22436 in India.'',
               thinkingBudget = 32768\<rparr> ''22436''"
    by (simp add: getCoachPositionAI_begin_def empty_cache_def)
  have f5: "getCoachPositionAI_try sample_parse sample_cache ''22436'' (Fulfilled (Some ''<html>'')) = Inl SyntaxError"
    by (simp add: getCoachPositionAI_try_def await_response_def JSON_parse_def text_or_def
        sample_parse_def)
  have n5: "coaches sample_cache ''22436'' = None"
    by (simp add: sample_cache_def)
  have s5: "coaches (empty_cache\<lparr>coaches := [''22436'' \<mapsto> JArr [JNum 1]]\<rparr>) ''22436'' = Some (JArr [JNum 1])"
    by simp
  note u5 = t [where parse = sample_parse and c = sample_cache and r = "Fulfilled (Some ''<html>'')"
      and e = SyntaxError and v = "JArr [JNum 1]",
      THEN conjunct2, THEN conjunct2, THEN conjunct2, THEN conjunct2, rule_format, OF conjI, OF b5 f5]
  from u5 [THEN conjunct1]
  have r5: "getCoachPositionAI_resume sample_parse sample_cache ''22436'' (Fulfilled (Some ''<html>'')) = (JNull, sample_cache)" .
  from u5 [THEN conjunct2, THEN conjunct1, rule_format, of sample_cache, OF n5]
  have a5: "getCoachPositionAI_begin sample_cache ''22436''
      = Await \<lparr>model = ''gemini-3-pro-preview'',
               contents = ''Provide the coach position sequence for train 22436 in India.'',
               thinkingBudget = 32768\<rparr> ''22436''" .
  from u5 [THEN conjunct2, THEN conjunct2, rule_format, OF s5]
  have h5: "getCoachPositionAI_begin (empty_cache\<lparr>coaches := [''22436'' \<mapsto> JArr [JNum 1]]\<rparr>) ''22436'' = Done (JArr [JNum 1])"
    by (simp add: or_else_def)
  from b1 f1 r1 n1 a1 s1 h1 b2 f2 r2 n2 a2 s2 h2 b3 f3 r3 n3 a3 s3 h3 b4 f4 r4 n4 a4 s4 h4 b5 f5 r5 n5 a5 s5 h5 show ?thesis
    by (intro conjI)
qed

text \<open>C9. For a query that is empty or shorter than 2 characters,
  getStationSuggestionsAI returns an empty array at once: it returns before its external
  call, sends no request, and the result and the cache it leaves are the same whatever
  the suggestions cache holds, so the cache is neither read nor written.\<close>

theorem short_query_returns_at_once:
  "length query < 2 \<Longrightarrow>
     getStationSuggestionsAI_begin c query = Done (JArr [])
     \<and> getStationSuggestionsAI parse c query r = (JArr [], c, [])"
  by (simp add: getStationSuggestionsAI_def getStationSuggestionsAI_begin_def)

text \<open>C9 for the one-character query \<^verbatim>\<open>d\<close>, on a cache that even holds an entry under
  that key.\<close>

theorem short_query_returns_at_once_witness:
  "length ''d'' < 2
   \<and> suggestions (empty_cache\<lparr>suggestions := [''d'' \<mapsto> JArr [JNum 1]]\<rparr>) ''d''
       = Some (JArr [JNum 1])
   \<and> getStationSuggestionsAI_begin (empty_cache\<lparr>suggestions := [''d'' \<mapsto> JArr [JNum 1]]\<rparr>) ''d''
       = Done (JArr [])
   \<and> getStationSuggestionsAI sample_parse
        (empty_cache\<lparr>suggestions := [''d'' \<mapsto> JArr [JNum 1]]\<rparr>) ''d'' (Fulfilled (Some ''[1]''))
       = (JArr [], empty_cache\<lparr>suggestions := [''d'' \<mapsto> JArr [JNum 1]]\<rparr>, [])"
proof -
  have h: "length ''d'' < 2" by simp
  have s: "suggestions (empty_cache\<lparr>suggestions := [''d'' \<mapsto> JArr [JNum 1]]\<rparr>) ''d''
       = Some (JArr [JNum 1])"
    by simp
  from short_query_returns_at_once [OF h] h s show ?thesis by blast
qed

text \<open>C10. searchTrainsAI computes its cache key as the lowercased \<^verbatim>\<open>from\<close>, a hyphen
  and the lowercased \<^verbatim>\<open>to\<close>. The distinct pairs (\<^verbatim>\<open>a-b\<close>, \<^verbatim>\<open>c\<close>) and
  (\<^verbatim>\<open>a\<close>, \<^verbatim>\<open>b-c\<close>) therefore address the same entry: once a call with the first pair
  has returned with its key in the cache, a call with the second pair sends no request
  and returns the value the first call returned.\<close>

theorem search_key_collision:
  "(''a-b'', ''c'') \<noteq> (''a'', ''b-c'')
   \<and> toLowerCase ''a-b'' @ ''-'' @ toLowerCase ''c'' = toLowerCase ''a'' @ ''-'' @ toLowerCase ''b-c''
   \<and> (searchTrainsAI_begin c from to = Await req k \<longrightarrow>
        k = toLowerCase from @ ''-'' @ toLowerCase to)
   \<and> (searchTrainsAI parse c ''a-b'' ''c'' r1 = (v, c', reqs) \<and> search c' ''a-b-c'' \<noteq> None \<longrightarrow>
        searchTrainsAI parse c' ''a'' ''b-c'' r2 = (v, c', []))"
proof -
  have ne: "(''a-b'', ''c'') \<noteq> (''a'', ''b-c'')"
    by simp
  have k1: "toLowerCase ''a-b'' @ ''-'' @ toLowerCase ''c'' = ''a-b-c''"
    by (simp add: toLowerCase_def lower_char_other is_upper_def)
  have k2: "toLowerCase ''a'' @ ''-'' @ toLowerCase ''b-c'' = ''a-b-c''"
    by (simp add: toLowerCase_def lower_char_other is_upper_def)
  from k1 k2 have slot: "toLowerCase ''a-b'' @ ''-'' @ toLowerCase ''c''
      = toLowerCase ''a'' @ ''-'' @ toLowerCase ''b-c''"
    by simp
  have key: "searchTrainsAI_begin c from to = Await req k \<longrightarrow>
        k = toLowerCase from @ ''-'' @ toLowerCase to"
    by (auto simp: searchTrainsAI_begin_def Let_def split: option.splits)
  have hit: "searchTrainsAI parse c ''a-b'' ''c'' r1 = (v, c', reqs) \<and> search c' ''a-b-c'' \<noteq> None
      \<longrightarrow> searchTrainsAI parse c' ''a'' ''b-c'' r2 = (v, c', [])"
  proof
    assume h: "searchTrainsAI parse c ''a-b'' ''c'' r1 = (v, c', reqs) \<and> search c' ''a-b-c'' \<noteq> None"
    with k1 have "searchTrainsAI parse c' ''a-b'' ''c'' r2 = (v, c', [])"
      using searchTrainsAI_again [of parse c "''a-b''" "''c''" r1 v c' reqs r2] by simp
    moreover have "searchTrainsAI parse c' ''a'' ''b-c'' r2 = searchTrainsAI parse c' ''a-b'' ''c'' r2"
      using h k1 k2 by (auto simp: searchTrainsAI_def searchTrainsAI_begin_def Let_def)
    ultimately show "searchTrainsAI parse c' ''a'' ''b-c'' r2 = (v, c', [])" by simp
  qed
  from ne slot key hit show ?thesis by (intro conjI)
qed

text \<open>C10 on the empty cache: the first pair misses and stores its parsed response, the
  second pair is served that response although its own request would have been rejected.\<close>

theorem search_key_collision_witness:
  "searchTrainsAI_begin empty_cache ''a-b'' ''c''
      = Await \<lparr>model = ''gemini-3-pro-preview'', contents = ''Trains from a-b to c.'',
               thinkingBudget = 32768\<rparr> ''a-b-c''
   \<and> searchTrainsAI sample_parse empty_cache ''a-b'' ''c'' (Fulfilled (Some ''[1]''))
      = (JArr [JNum 1], empty_cache\<lparr>search := [''a-b-c'' \<mapsto> JArr [JNum 1]]\<rparr>,
         [\<lparr>model = ''gemini-3-pro-preview'', contents = ''Trains from a-b to c.'',
           thinkingBudget = 32768\<rparr>])
   \<and> search (empty_cache\<lparr>search := [''a-b-c'' \<mapsto> JArr [JNum 1]]\<rparr>) ''a-b-c'' \<noteq> None
   \<and> searchTrainsAI sample_parse (empty_cache\<lparr>search := [''a-b-c'' \<mapsto> JArr [JNum 1]]\<rparr>)
        ''a'' ''b-c'' Rejected
      = (JArr [JNum 1], empty_cache\<lparr>search := [''a-b-c'' \<mapsto> JArr [JNum 1]]\<rparr>, [])"
proof -
  note t = search_key_collision
  have g: "searchTrainsAI_begin empty_cache ''a-b'' ''c''
      = Await \<lparr>model = ''gemini-3-pro-preview'', contents = ''Trains from a-b to c.'',
               thinkingBudget = 32768\<rparr> ''a-b-c''"
    by (simp add: searchTrainsAI_begin_def empty_cache_def toLowerCase_def lower_char_other
        is_upper_def)
  have a: "searchTrainsAI sample_parse empty_cache ''a-b'' ''c'' (Fulfilled (Some ''[1]''))
      = (JArr [JNum 1], empty_cache\<lparr>search := [''a-b-c'' \<mapsto> JArr [JNum 1]]\<rparr>,
         [\<lparr>model = ''gemini-3-pro-preview'', contents = ''Trains from a-b to c.'',
           thinkingBudget = 32768\<rparr>])"
    by (simp add: eval_defs toLowerCase_def lower_char_other is_upper_def)
  have b: "search (empty_cache\<lparr>search := [''a-b-c'' \<mapsto> JArr [JNum 1]]\<rparr>) ''a-b-c'' \<noteq> None"
    by simp
  from t [THEN conjunct2, THEN conjunct2, THEN conjunct2, rule_format, OF conjI, OF a b,
      of Rejected]
  have c: "searchTrainsAI sample_parse (empty_cache\<lparr>search := [''a-b-c'' \<mapsto> JArr [JNum 1]]\<rparr>)
        ''a'' ''b-c'' Rejected
      = (JArr [JNum 1], empty_cache\<lparr>search := [''a-b-c'' \<mapsto> JArr [JNum 1]]\<rparr>, [])"
    by simp
  from g a b c show ?thesis by (intro conjI)
qed

end
